theory Spec2Isabelle
  imports Complex_Main
begin

section \<open>Numbers\<close>

text \<open>
  numpy computes in IEEE double precision. The model keeps the special values, because the
  code produces them itself (the mean of an empty selection is NaN, a division by a zero
  mean distance is an infinity), and computes with finite numbers exactly: a finite number
  is a real, zero has no sign (a zero divisor is taken as +0, which is what a mean of
  square roots yields). Rounding, overflow to an infinity and underflow to zero are not
  modelled, so every equation proved below about finite results is an equation of exact
  arithmetic; the code's doubles agree with it up to rounding, and only while no
  intermediate result leaves the range of a double.
\<close>

datatype fl = Fin real | PInf | NInf | NaN

fun fneg :: "fl \<Rightarrow> fl" where
  "fneg (Fin a) = Fin (- a)"
| "fneg PInf = NInf"
| "fneg NInf = PInf"
| "fneg NaN = NaN"

fun fabs :: "fl \<Rightarrow> fl" where
  "fabs (Fin a) = Fin \<bar>a\<bar>"
| "fabs PInf = PInf"
| "fabs NInf = PInf"
| "fabs NaN = NaN"

fun fadd :: "fl \<Rightarrow> fl \<Rightarrow> fl" where
  "fadd NaN _ = NaN"
| "fadd _ NaN = NaN"
| "fadd (Fin a) (Fin b) = Fin (a + b)"
| "fadd PInf NInf = NaN"
| "fadd NInf PInf = NaN"
| "fadd PInf _ = PInf"
| "fadd NInf _ = NInf"
| "fadd (Fin a) y = y"

definition fsub :: "fl \<Rightarrow> fl \<Rightarrow> fl" where
  "fsub x y = fadd x (fneg y)"

text \<open>An infinity times a finite number: the sign rule, and NaN at zero.\<close>

fun inf_times :: "bool \<Rightarrow> real \<Rightarrow> fl" where
  "inf_times pos a =
     (if a = 0 then NaN else if (0 < a) = pos then PInf else NInf)"

fun fmul :: "fl \<Rightarrow> fl \<Rightarrow> fl" where
  "fmul NaN _ = NaN"
| "fmul _ NaN = NaN"
| "fmul (Fin a) (Fin b) = Fin (a * b)"
| "fmul (Fin a) PInf = inf_times True a"
| "fmul (Fin a) NInf = inf_times False a"
| "fmul PInf (Fin b) = inf_times True b"
| "fmul NInf (Fin b) = inf_times False b"
| "fmul PInf PInf = PInf"
| "fmul NInf NInf = PInf"
| "fmul PInf NInf = NInf"
| "fmul NInf PInf = NInf"

fun fdiv :: "fl \<Rightarrow> fl \<Rightarrow> fl" where
  "fdiv NaN _ = NaN"
| "fdiv _ NaN = NaN"
| "fdiv (Fin a) (Fin b) =
     (if b = 0 then (if a = 0 then NaN else if 0 < a then PInf else NInf)
      else Fin (a / b))"
| "fdiv (Fin a) _ = Fin 0"
| "fdiv PInf (Fin b) = (if 0 \<le> b then PInf else NInf)"
| "fdiv NInf (Fin b) = (if 0 \<le> b then NInf else PInf)"
| "fdiv _ _ = NaN"

fun fsqrt :: "fl \<Rightarrow> fl" where
  "fsqrt (Fin a) = (if a < 0 then NaN else Fin (sqrt a))"
| "fsqrt PInf = PInf"
| "fsqrt NInf = NaN"
| "fsqrt NaN = NaN"

text \<open>\<open>x > y\<close>; every comparison with NaN is false.\<close>

fun fgt :: "fl \<Rightarrow> fl \<Rightarrow> bool" where
  "fgt NaN _ = False"
| "fgt _ NaN = False"
| "fgt (Fin a) (Fin b) = (b < a)"
| "fgt PInf PInf = False"
| "fgt PInf _ = True"
| "fgt NInf _ = False"
| "fgt (Fin a) PInf = False"
| "fgt (Fin a) NInf = True"

primrec fsum :: "fl list \<Rightarrow> fl" where
  "fsum [] = Fin 0"
| "fsum (x # xs) = fadd x (fsum xs)"

text \<open>\<open>np.mean\<close>: the sum over the count; on an empty array this is 0/0, NaN.\<close>

definition fmean :: "fl list \<Rightarrow> fl" where
  "fmean xs = fdiv (fsum xs) (Fin (real (length xs)))"

text \<open>\<open>np.finfo(float).eps\<close>\<close>

definition eps :: fl where
  "eps = Fin (1 / 2 ^ 52)"

subsection \<open>Integers\<close>

text \<open>
  An array has an element type. Two are modelled: numpy's default integer \<open>int64\<close> and
  its default float \<open>float64\<close>. The elements of an integer array are whole numbers within
  the range of \<open>int64\<close>, held as finite values.
\<close>

datatype dtype = Integer | Floating

text \<open>Arithmetic in \<open>int64\<close> wraps around.\<close>

definition wrap64 :: "int \<Rightarrow> int" where
  "wrap64 i = (i + 2 ^ 63) mod 2 ^ 64 - 2 ^ 63"

text \<open>
  The product of two elements: in \<open>int64\<close> when both arrays are integer arrays, in
  floating point otherwise.
\<close>

fun imul :: "fl \<Rightarrow> fl \<Rightarrow> fl" where
  "imul (Fin a) (Fin b) = Fin (of_int (wrap64 (\<lfloor>a\<rfloor> * \<lfloor>b\<rfloor>)))"
| "imul x y = fmul x y"

definition np_mul :: "dtype \<Rightarrow> dtype \<Rightarrow> fl \<Rightarrow> fl \<Rightarrow> fl" where
  "np_mul t1 t2 x y = (if t1 = Integer \<and> t2 = Integer then imul x y else fmul x y)"

text \<open>\<open>abs\<close>: in \<open>int64\<close> the smallest integer is its own absolute value.\<close>

fun np_abs :: "dtype \<Rightarrow> fl \<Rightarrow> fl" where
  "np_abs Integer (Fin a) = (if a = - (2 ^ 63) then Fin a else Fin \<bar>a\<bar>)"
| "np_abs t x = fabs x"

text \<open>
  Storing a float in an array converts it to the array's element type: an integer array
  keeps the integer part, rounding toward zero. A value that has none in range (a NaN, an
  infinity, a number beyond \<open>int64\<close>) is stored as the smallest integer, as the
  conversion of x86-64 does.
\<close>

definition trunc0 :: "real \<Rightarrow> int" where
  "trunc0 a = (if 0 \<le> a then \<lfloor>a\<rfloor> else \<lceil>a\<rceil>)"

fun astype :: "dtype \<Rightarrow> fl \<Rightarrow> fl" where
  "astype Floating x = x"
| "astype Integer (Fin a) =
     (if - (2 ^ 63) \<le> trunc0 a \<and> trunc0 a < 2 ^ 63 then Fin (of_int (trunc0 a))
      else Fin (- (2 ^ 63)))"
| "astype Integer x = Fin (- (2 ^ 63))"

section \<open>Arrays\<close>

type_synonym matrix = "fl list list"

text \<open>
  An array object: its shape, its element type and, when it is two-dimensional, its rows,
  all of one length. The functions below reject every other dimensionality before they
  read an element.
\<close>

record ndarray =
  shape :: "nat list"
  dtype :: dtype
  elems :: matrix

text \<open>
  The caller's arrays live in a store and are passed by address. A view is one of the
  four expressions of \<open>process_input_pointpairs\<close> that share memory with their base:
  \<open>x\<close>, \<open>x.T\<close>, \<open>x[lo:hi]\<close> and \<open>x[:, lo:hi].T\<close>.
\<close>

type_synonym addr = nat

type_synonym store = "ndarray list"

datatype view = Whole addr | Transp addr | RowSlice addr nat nat | ColSliceT addr nat nat

fun base :: "view \<Rightarrow> addr" where
  "base (Whole a) = a"
| "base (Transp a) = a"
| "base (RowSlice a lo hi) = a"
| "base (ColSliceT a lo hi) = a"

definition rows_of :: "nat \<Rightarrow> nat \<Rightarrow> matrix \<Rightarrow> matrix" where
  "rows_of lo hi M = take (hi - lo) (drop lo M)"

definition cols_of :: "nat \<Rightarrow> nat \<Rightarrow> matrix \<Rightarrow> matrix" where
  "cols_of lo hi M = map (\<lambda>r. take (hi - lo) (drop lo r)) M"

fun view_get :: "store \<Rightarrow> view \<Rightarrow> matrix" where
  "view_get s (Whole a) = elems (s ! a)"
| "view_get s (Transp a) = transpose (elems (s ! a))"
| "view_get s (RowSlice a lo hi) = rows_of lo hi (elems (s ! a))"
| "view_get s (ColSliceT a lo hi) = transpose (cols_of lo hi (elems (s ! a)))"

text \<open>Writing the whole content of a view writes the cells of the base it covers.\<close>

fun view_put :: "store \<Rightarrow> view \<Rightarrow> matrix \<Rightarrow> store" where
  "view_put s (Whole a) P = s[a := (s ! a)\<lparr>elems := P\<rparr>]"
| "view_put s (Transp a) P = s[a := (s ! a)\<lparr>elems := transpose P\<rparr>]"
| "view_put s (RowSlice a lo hi) P =
     s[a := (s ! a)\<lparr>elems := take lo (elems (s ! a)) @ P @ drop hi (elems (s ! a))\<rparr>]"
| "view_put s (ColSliceT a lo hi) P =
     s[a := (s ! a)\<lparr>elems :=
          map2 (\<lambda>r p. take lo r @ p @ drop hi r) (elems (s ! a)) (transpose P)\<rparr>]"

text \<open>
  A new array is allocated behind every array the store holds. The only arrays that
  \<open>process_input_pointpairs\<close> allocates are those of \<open>np.r_\<close>, which joins rows with a
  row of float ones: they are float arrays.
\<close>

definition alloc :: "store \<Rightarrow> matrix \<Rightarrow> nat \<Rightarrow> store \<times> view" where
  "alloc s M n =
     (s @ [\<lparr>shape = [length M, n], dtype = Floating, elems = M\<rparr>], Whole (length s))"

text \<open>\<open>np.ones((1, n))\<close>\<close>

definition ones :: "nat \<Rightarrow> matrix" where
  "ones n = [replicate n (Fin 1)]"

section \<open>Errors\<close>

text \<open>
  \<open>ShapeError\<close> is the repository's exception and carries its message. The others are
  raised by Python and numpy; \<open>fundamental_matrix\<close> does not catch them.
\<close>

datatype exn = ShapeError string | IndexError | ValueError | LinAlgError | ZeroDivisionError

section \<open>process_input_pointpairs\<close>

definition process_input_pointpairs ::
  "store \<Rightarrow> addr list \<Rightarrow> exn + (store \<times> view \<times> view \<times> nat)" where
  "process_input_pointpairs s args =
    (case args of
       [a1, a2] \<Rightarrow>
         (let x1 = s ! a1; x2 = s ! a2 in
          if \<not> shape x1 = shape x2 then
            Inl (ShapeError ''the two arguments should have same size'')
          else if \<not> length (shape x1) = 2 then
            Inl (ShapeError ''Each input has to be a 2D array'')
          else
            let npts = max (shape x1 ! 0) (shape x1 ! 1);
                d = min (shape x1 ! 0) (shape x1 ! 1) in
            if npts < 8 then
              Inl (ShapeError ''At least 8 points are needed to compute the fundamental matrix'')
            else if d = 2 then
              (if 2 = shape x1 ! 0 then
                 (let (s1, v1) = alloc s (elems x1 @ ones npts) npts;
                      (s2, v2) = alloc s1 (elems x2 @ ones npts) npts
                  in Inr (s2, v1, v2, npts))
               else
                 (let (s1, v1) = alloc s (transpose (elems x1) @ ones npts) npts;
                      (s2, v2) = alloc s1 (transpose (elems x2) @ ones npts) npts
                  in Inr (s2, v1, v2, npts)))
            else if d = 3 then
              (if 3 = shape x1 ! 1 then Inr (s, Transp a1, Transp a2, npts)
               else Inr (s, Whole a1, Whole a2, npts))
            else Inl (ShapeError ''x1 and x2 must be 2xN or Nx2 or 3xN or Nx3''))
     | [a] \<Rightarrow>
         (let x = s ! a in
          if \<not> length (shape x) = 2 then
            Inl (ShapeError ''Each input has to be a 2D array'')
          else
            let npts = max (shape x ! 0) (shape x ! 1);
                d = min (shape x ! 0) (shape x ! 1) in
            if npts < 8 then
              Inl (ShapeError ''At least 8 points are needed to compute the fundamental matrix'')
            else if d = 4 then
              (if 4 = shape x ! 0 then
                 (let (s1, v1) = alloc s (rows_of 0 2 (elems x) @ ones npts) npts;
                      (s2, v2) = alloc s1 (rows_of 2 4 (elems x) @ ones npts) npts
                  in Inr (s2, v1, v2, npts))
               else
                 (let (s1, v1) = alloc s (transpose (cols_of 0 2 (elems x)) @ ones npts) npts;
                      (s2, v2) = alloc s1 (transpose (cols_of 2 4 (elems x)) @ ones npts) npts
                  in Inr (s2, v1, v2, npts)))
            else if d = 6 then
              (if 6 = shape x ! 0 then Inr (s, RowSlice a 0 3, RowSlice a 3 6, npts)
               else Inr (s, ColSliceT a 0 3, ColSliceT a 3 6, npts))
            else Inl (ShapeError ''Single argument x must be 4xN or Nx4 or 6xN or Nx6''))
     | _ \<Rightarrow> Inl (ShapeError ''Wrong number of arguments supplied''))"

section \<open>normalize2dpts\<close>

text \<open>\<open>np.dot\<close> of two matrices whose inner dimensions agree.\<close>

definition dot :: "matrix \<Rightarrow> matrix \<Rightarrow> matrix" where
  "dot A B = map (\<lambda>r. map (\<lambda>c. fsum (map2 fmul r c)) (transpose B)) A"

text \<open>\<open>row[msk]\<close>: the entries of a row where the boolean mask holds.\<close>

definition select :: "fl list \<Rightarrow> bool list \<Rightarrow> fl list" where
  "select xs msk = map fst (filter snd (zip xs msk))"

text \<open>
  \<open>row[msk] = row[msk] / den[msk]\<close>, written in place: the quotient is a float, and the
  row keeps the element type of its array.
\<close>

definition div_where :: "dtype \<Rightarrow> fl list \<Rightarrow> fl list \<Rightarrow> bool list \<Rightarrow> fl list" where
  "div_where t xs den msk =
     map (\<lambda>(x, w, m). if m then astype t (fdiv x w) else x) (zip xs (zip den msk))"

definition set_where :: "fl list \<Rightarrow> fl \<Rightarrow> bool list \<Rightarrow> fl list" where
  "set_where xs c msk = map (\<lambda>(x, m). if m then c else x) (zip xs msk)"

text \<open>
  The function writes the de-homogenised coordinates into \<open>pts\<close> itself, so the store
  changes and, in an integer array, the coordinates lose their fractions; the means, the
  distances and the product \<open>np.dot(T, pts)\<close> are computed in floating point from what
  the array then holds. \<open>newpts\<close> and \<open>T\<close> are new float arrays and are returned by
  value.
\<close>

definition normalize2dpts :: "store \<Rightarrow> view \<Rightarrow> exn + (store \<times> matrix \<times> matrix)" where
  "normalize2dpts s v =
    (let pts = view_get s v; t = dtype (s ! base v) in
     if length pts \<noteq> 3 then Inl (ShapeError ''pts must be 3xN'')
     else
       let finiteind = map (\<lambda>w. fgt (np_abs t w) eps) (pts ! 2);
           r0 = div_where t (pts ! 0) (pts ! 2) finiteind;
           r1 = div_where t (pts ! 1) (pts ! 2) finiteind;
           r2 = set_where (pts ! 2) (Fin 1) finiteind;
           pts' = [r0, r1, r2];
           s' = view_put s v pts';
           c0 = fmean (select r0 finiteind);
           c1 = fmean (select r1 finiteind);
           newp0 = map (\<lambda>x. fsub x c0) (select r0 finiteind);
           newp1 = map (\<lambda>y. fsub y c1) (select r1 finiteind);
           meandist = fmean (map2 (\<lambda>a b. fsqrt (fadd (fmul a a) (fmul b b))) newp0 newp1);
           scale = fdiv (fsqrt (Fin 2)) meandist;
           T = [[scale, Fin 0, fmul (fneg scale) c0],
                [Fin 0, scale, fmul (fneg scale) c1],
                [Fin 0, Fin 0, Fin 1]];
           newpts = dot T pts'
       in Inr (s', newpts, T))"

section \<open>constraint_matrix\<close>

text \<open>The product of two rows, element by element, in the type of the two arrays.\<close>

definition vmul :: "dtype \<Rightarrow> dtype \<Rightarrow> fl list \<Rightarrow> fl list \<Rightarrow> fl list" where
  "vmul t2 t1 xs ys = map2 (np_mul t2 t1) xs ys"

text \<open>
  The function takes the two arrays with their element types. Python evaluates the nine
  columns from left to right and \<open>np.c_\<close> then stacks them side by side. The first
  column is \<open>x2[0] * x1[0]\<close>: a missing row raises \<open>IndexError\<close>, and two rows that
  differ in length, neither of length 1, do not broadcast and raise \<open>ValueError\<close>.
  The second column reads \<open>x1[1]\<close>, the fourth \<open>x2[1]\<close>. Rows that did broadcast give
  columns of different lengths, which \<open>np.c_\<close> refuses with \<open>ValueError\<close>. Stacked
  with the float column of ones, the matrix is a float array.
\<close>

definition constraint_matrix :: "dtype \<Rightarrow> matrix \<Rightarrow> dtype \<Rightarrow> matrix \<Rightarrow> exn + matrix" where
  "constraint_matrix t1 x1 t2 x2 =
     (case x2 of [] \<Rightarrow> Inl IndexError
      | b0 # bs \<Rightarrow>
     (case x1 of [] \<Rightarrow> Inl IndexError
      | a0 # as \<Rightarrow>
        if length b0 \<noteq> length a0 \<and> length b0 \<noteq> 1 \<and> length a0 \<noteq> 1 then Inl ValueError
        else
     (case as of [] \<Rightarrow> Inl IndexError
      | a1 # as' \<Rightarrow>
     (case bs of [] \<Rightarrow> Inl IndexError
      | b1 # bs' \<Rightarrow>
        let npts = length a0 in
        if length b0 = npts then
          Inr (transpose
            [vmul t2 t1 b0 a0, vmul t2 t1 b0 a1, b0, vmul t2 t1 b1 a0, vmul t2 t1 b1 a1, b1,
             a0, a1, replicate npts (Fin 1)])
        else Inl ValueError))))"

section \<open>eight_point_algorithm\<close>

text \<open>
  \<open>np.linalg.svd\<close> is numpy's: it is a parameter of the model. It returns \<open>(U, S, Vh)\<close>
  or raises \<open>LinAlgError\<close>.
\<close>

type_synonym svd_fn = "matrix \<Rightarrow> exn + (matrix \<times> fl list \<times> matrix)"

definition ebind :: "exn + 'a \<Rightarrow> ('a \<Rightarrow> exn + 'b) \<Rightarrow> exn + 'b" where
  "ebind r f = (case r of Inl e \<Rightarrow> Inl e | Inr x \<Rightarrow> f x)"

text \<open>\<open>np.dot\<close> raises \<open>ValueError\<close> when the shapes are not aligned.\<close>

definition np_dot :: "matrix \<Rightarrow> matrix \<Rightarrow> exn + matrix" where
  "np_dot A B = (if list_all (\<lambda>r. length r = length B) A then Inr (dot A B) else Inl ValueError)"

text \<open>\<open>V[:, j]\<close>\<close>

definition column :: "nat \<Rightarrow> matrix \<Rightarrow> exn + fl list" where
  "column j M = (if list_all (\<lambda>r. j < length r) M then Inr (map (\<lambda>r. r ! j) M) else Inl IndexError)"

text \<open>\<open>v.reshape(3, 3)\<close>\<close>

definition reshape33 :: "fl list \<Rightarrow> exn + matrix" where
  "reshape33 v =
     (case v of [a, b, c, d, e, f, g, h, i] \<Rightarrow> Inr [[a, b, c], [d, e, f], [g, h, i]]
      | _ \<Rightarrow> Inl ValueError)"

text \<open>\<open>np.diag([D[0], D[1], 0])\<close>\<close>

definition diag2 :: "fl list \<Rightarrow> exn + matrix" where
  "diag2 D =
     (case D of d0 # d1 # _ \<Rightarrow>
        Inr [[d0, Fin 0, Fin 0], [Fin 0, d1, Fin 0], [Fin 0, Fin 0, Fin 0]]
      | _ \<Rightarrow> Inl IndexError)"

definition eight_point_algorithm ::
  "svd_fn \<Rightarrow> store \<Rightarrow> view \<Rightarrow> view \<Rightarrow> bool \<Rightarrow> store \<times> (exn + matrix)" where
  "eight_point_algorithm svd s x1 x2 normalize_flag =
    (case (if normalize_flag then
             (case normalize2dpts s x1 of
                Inl e \<Rightarrow> (s, Inl e)
              | Inr (s1, p1, T1) \<Rightarrow>
                  (case normalize2dpts s1 x2 of
                     Inl e \<Rightarrow> (s1, Inl e)
                   | Inr (s2, p2, T2) \<Rightarrow>
                       (s2, Inr ((Floating, p1), (Floating, p2), T1, T2))))
           else (s, Inr ((dtype (s ! base x1), view_get s x1),
                         (dtype (s ! base x2), view_get s x2), [], []))) of
       (s', Inl e) \<Rightarrow> (s', Inl e)
     | (s', Inr ((t1, p1), (t2, p2), T1, T2)) \<Rightarrow>
         (s',
          ebind (constraint_matrix t1 p1 t2 p2) (\<lambda>A.
          ebind (svd A) (\<lambda>(U, S, Vh).
          ebind (column 8 (transpose Vh)) (\<lambda>v.
          ebind (reshape33 v) (\<lambda>F0.
          ebind (svd F0) (\<lambda>(U, D, V).
          ebind (diag2 D) (\<lambda>Dm.
          ebind (np_dot U Dm) (\<lambda>UD.
          ebind (np_dot UD V) (\<lambda>F.
          if normalize_flag then ebind (np_dot (transpose T2) F) (\<lambda>M. np_dot M T1)
          else Inr F))))))))))"

section \<open>fundamental_matrix\<close>

text \<open>
  The result is the store after the call, the lines printed, and either an exception that
  leaves the function or the value returned: \<open>None\<close> or the matrix.
\<close>

definition fundamental_matrix ::
  "svd_fn \<Rightarrow> store \<Rightarrow> addr list \<Rightarrow> bool \<Rightarrow> store \<times> string list \<times> (exn + matrix option)" where
  "fundamental_matrix svd s args normalize_flag =
    (case process_input_pointpairs s args of
       Inl (ShapeError m) \<Rightarrow> (s, [''ShapeError, exception message: '' @ m], Inr None)
     | Inl e \<Rightarrow> (s, [], Inl e)
     | Inr (s1, x1, x2, npts) \<Rightarrow>
         (case eight_point_algorithm svd s1 x1 x2 normalize_flag of
            (s2, Inl (ShapeError m)) \<Rightarrow>
              (s2, [''ShapeError, exception message: '' @ m], Inr None)
          | (s2, Inl e) \<Rightarrow> (s2, [], Inl e)
          | (s2, Inr F) \<Rightarrow> (s2, [], Inr (Some F))))"

section \<open>epipolar_distance\<close>

text \<open>
  A point is a pair of pixel coordinates, a line its three coefficients. The loop runs
  over the four lists zipped, so it stops with the shortest. \<open>distance\<close> starts as the
  integer 0: dividing it by the length of an empty \<open>l_pts\<close> raises \<open>ZeroDivisionError\<close>.
  The function also prints the distance, which the model leaves out, and its first
  statement reads the shape of the module's image \<open>img_left\<close> into names it never uses:
  the script binds that image before every call, and the model leaves the statement out.
\<close>

type_synonym point = "fl \<times> fl"

type_synonym line = "fl \<times> fl \<times> fl"

text \<open>\<open>np.dot((x, y, 1), line)\<close>\<close>

fun dot_pt_line :: "point \<Rightarrow> line \<Rightarrow> fl" where
  "dot_pt_line (x, y) (a, b, c) = fsum [fmul x a, fmul y b, fmul (Fin 1) c]"

fun side_term :: "point \<Rightarrow> line \<Rightarrow> fl" where
  "side_term pt (a, b, c) =
     fdiv (fmul (dot_pt_line pt (a, b, c)) (dot_pt_line pt (a, b, c)))
          (fsqrt (fadd (fmul a a) (fmul b b)))"

fun epipolar_loop :: "point list \<Rightarrow> point list \<Rightarrow> line list \<Rightarrow> line list \<Rightarrow> fl \<Rightarrow> fl" where
  "epipolar_loop (l_pt # l_pts) (r_pt # r_pts) (l_line # l_lines) (r_line # r_lines) distance =
     epipolar_loop l_pts r_pts l_lines r_lines
       (fadd distance (fadd (side_term l_pt l_line) (side_term r_pt r_line)))"
| "epipolar_loop _ _ _ _ distance = distance"

definition epipolar_distance ::
  "point list \<Rightarrow> point list \<Rightarrow> line list \<Rightarrow> line list \<Rightarrow> exn + fl" where
  "epipolar_distance l_pts r_pts l_lines r_lines =
    (let distance = epipolar_loop l_pts r_pts l_lines r_lines (Fin 0) in
     if length l_pts = 0 then Inl ZeroDivisionError
     else Inr (fdiv distance (Fin (real (length l_pts)))))"

section \<open>The specification's words\<close>

text \<open>
  The symmetric epipolar distance in the specification's words: the squared residual over
  the squared length of the line's normal, in both images, averaged over the points.
\<close>

fun spec_side_term :: "point \<Rightarrow> line \<Rightarrow> fl" where
  "spec_side_term pt (a, b, c) =
     fdiv (fmul (dot_pt_line pt (a, b, c)) (dot_pt_line pt (a, b, c)))
          (fadd (fmul a a) (fmul b b))"

definition spec_symmetric_epipolar_distance ::
  "point list \<Rightarrow> point list \<Rightarrow> line list \<Rightarrow> line list \<Rightarrow> fl" where
  "spec_symmetric_epipolar_distance l_pts r_pts l_lines r_lines =
     fmean (map2 (\<lambda>(p, l) (q, m). fadd (spec_side_term p l) (spec_side_term q m))
              (zip l_pts l_lines) (zip r_pts r_lines))"

text \<open>
  Row \<open>i\<close> of the constraint matrix as the specification describes it: built from the
  coordinates of point \<open>i\<close> divided by its third component.
\<close>

definition spec_constraint_row :: "matrix \<Rightarrow> matrix \<Rightarrow> nat \<Rightarrow> fl list" where
  "spec_constraint_row x1 x2 i =
    (let u1 = fdiv (x1 ! 0 ! i) (x1 ! 2 ! i); v1 = fdiv (x1 ! 1 ! i) (x1 ! 2 ! i);
         u2 = fdiv (x2 ! 0 ! i) (x2 ! 2 ! i); v2 = fdiv (x2 ! 1 ! i) (x2 ! 2 ! i)
     in [fmul u2 u1, fmul u2 v1, u2, fmul v2 u1, fmul v2 v1, v2, u1, v1, Fin 1])"

text \<open>
  The mean of a list of reals, the de-homogenised coordinates \<open>x/w\<close>, and the mean
  Euclidean distance of points from their centroid.
\<close>

definition mean :: "real list \<Rightarrow> real" where
  "mean xs = sum_list xs / real (length xs)"

definition dehom :: "real list \<Rightarrow> real list \<Rightarrow> real list" where
  "dehom xs ws = map2 (/) xs ws"

definition mean_distance :: "real list \<Rightarrow> real list \<Rightarrow> real" where
  "mean_distance us vs =
     mean (map2 (\<lambda>u v. sqrt ((u - mean us) * (u - mean us) + (v - mean vs) * (v - mean vs))) us vs)"

text \<open>
  The smaller dimension of a two-dimensional array, and the frame condition of a call:
  every array the caller's store held is still there, unchanged.
\<close>

definition small_dim :: "ndarray \<Rightarrow> nat" where
  "small_dim x = min (shape x ! 0) (shape x ! 1)"

definition preserved :: "store \<Rightarrow> store \<Rightarrow> bool" where
  "preserved s s' \<longleftrightarrow> take (length s) s' = s"


text \<open>
  Two matrices are the same fundamental matrix when one is a nonzero multiple of the other.
  The epipolar residuals \<open>x2\<^sup>T F x1\<close> of a matrix, one for each pair of columns.
\<close>

definition scalar_multiple :: "matrix \<Rightarrow> matrix \<Rightarrow> bool" where
  "scalar_multiple F G \<longleftrightarrow> (\<exists>c. c \<noteq> 0 \<and> F = map (map (fmul (Fin c))) G)"

definition residuals :: "matrix \<Rightarrow> matrix \<Rightarrow> matrix \<Rightarrow> fl list" where
  "residuals F x1 x2 =
     map2 (\<lambda>p q. fsum (map2 fmul q (map (\<lambda>r. fsum (map2 fmul r p)) F)))
       (transpose x1) (transpose x2)"

section \<open>Example data\<close>

text \<open>\<open>np.zeros((r, c))\<close>\<close>

definition zeros :: "nat \<Rightarrow> nat \<Rightarrow> ndarray" where
  "zeros r c = \<lparr>shape = [r, c], dtype = Floating, elems = replicate r (replicate c (Fin 0))\<rparr>"

text \<open>A \<open>3\<times>8\<close> float array with the given rows, and an integer array.\<close>

definition arr3 :: "matrix \<Rightarrow> ndarray" where
  "arr3 M = \<lparr>shape = [3, 8], dtype = Floating, elems = M\<rparr>"


text \<open>\<open>8\<times>2\<close> and \<open>8\<times>4\<close> arrays: pixels given row by row.\<close>

definition arr_tall :: "nat \<Rightarrow> matrix \<Rightarrow> ndarray" where
  "arr_tall c M = \<lparr>shape = [8, c], dtype = Floating, elems = M\<rparr>"

text \<open>
  An SVD routine that knows the decompositions listed in a table and reports that it did
  not converge on every other matrix.
\<close>

definition svd_table :: "(matrix \<times> (matrix \<times> fl list \<times> matrix)) list \<Rightarrow> svd_fn" where
  "svd_table tbl M = (case map_of tbl M of Some r \<Rightarrow> Inr r | None \<Rightarrow> Inl LinAlgError)"

text \<open>
  Eight copies of the homogeneous point \<open>(2, 4, 2)\<close>, that is of the pixel \<open>(1, 2)\<close>, and
  eight copies of \<open>(1, 1, 1)\<close>, as \<open>3\<times>8\<close> arrays.
\<close>

definition pts_242 :: matrix where
  "pts_242 = [replicate 8 (Fin 2), replicate 8 (Fin 4), replicate 8 (Fin 2)]"

definition pts_111 :: matrix where
  "pts_111 = [replicate 8 (Fin 1), replicate 8 (Fin 1), replicate 8 (Fin 1)]"

text \<open>The points of \<open>pts_242\<close> de-homogenised.\<close>

definition pts_121 :: matrix where
  "pts_121 = [replicate 8 (Fin 1), replicate 8 (Fin 2), replicate 8 (Fin 1)]"


text \<open>
  Eight points at infinity \<open>(1, 1, 0)\<close>, and the pixels \<open>(1, 0)\<close> and \<open>(-1, 0)\<close> in turn,
  written with third coordinate 2.
\<close>

definition pts_110 :: matrix where
  "pts_110 = [replicate 8 (Fin 1), replicate 8 (Fin 1), replicate 8 (Fin 0)]"

definition pts_alt :: matrix where
  "pts_alt = [map Fin [2, - 2, 2, - 2, 2, - 2, 2, - 2], map Fin (replicate 8 0),
              map Fin (replicate 8 2)]"

text \<open>The points of \<open>pts_alt\<close> de-homogenised, and eight copies of the origin.\<close>

definition pts_alt_w1 :: matrix where
  "pts_alt_w1 = [map Fin [1, - 1, 1, - 1, 1, - 1, 1, - 1], map Fin (replicate 8 0),
              replicate 8 (Fin 1)]"

definition pts_origin :: matrix where
  "pts_origin = [replicate 8 (Fin 0), replicate 8 (Fin 0), replicate 8 (Fin 1)]"

text \<open>
  Eight correspondences in homogeneous coordinates with third coordinate 2. The pixels
  are \<open>(\<plusminus>4, \<plusminus>3)\<close>, \<open>(\<plusminus>3, \<plusminus>4)\<close> on the left and \<open>(\<plusminus>48, \<plusminus>64)\<close>,
  \<open>(\<plusminus>36, \<plusminus>48)\<close> on the right, and satisfy \<open>x2 \<cdot> y1 = 144\<close>: their fundamental matrix
  has the rows \<open>(0, 1, 0)\<close>, \<open>(0, 0, 0)\<close>, \<open>(0, 0, -144)\<close>, up to scale.
\<close>

definition pts_left_h :: matrix where
  "pts_left_h = [map Fin [8, - 8, 8, - 8, 6, - 6, 6, - 6], map Fin [6, 6, - 6, - 6, 8, 8, - 8, - 8],
                 map Fin (replicate 8 2)]"

definition pts_right_h :: matrix where
  "pts_right_h = [map Fin [96, 96, - 96, - 96, 72, 72, - 72, - 72],
                  map Fin [128, - 128, 128, - 128, 96, - 96, - 96, 96], map Fin (replicate 8 2)]"

text \<open>
  The same points de-homogenised, as \<open>normalize2dpts\<close> leaves them in the caller's arrays,
  and normalised.
\<close>

definition pts_left_pix :: matrix where
  "pts_left_pix = [map Fin [4, - 4, 4, - 4, 3, - 3, 3, - 3], map Fin [3, 3, - 3, - 3, 4, 4, - 4, - 4],
                 replicate 8 (Fin 1)]"

definition pts_right_pix :: matrix where
  "pts_right_pix = [map Fin [48, 48, - 48, - 48, 36, 36, - 36, - 36],
                  map Fin [64, - 64, 64, - 64, 48, - 48, - 48, 48], replicate 8 (Fin 1)]"

definition pts_left_n :: matrix where
  "pts_left_n = [map (\<lambda>u. Fin (sqrt 2 * u / 5)) [4, - 4, 4, - 4, 3, - 3, 3, - 3],
             map (\<lambda>u. Fin (sqrt 2 * u / 5)) [3, 3, - 3, - 3, 4, 4, - 4, - 4],
             replicate 8 (Fin 1)]"

definition pts_right_n :: matrix where
  "pts_right_n = [map (\<lambda>u. Fin (sqrt 2 * u / 70)) [48, 48, - 48, - 48, 36, 36, - 36, - 36],
              map (\<lambda>u. Fin (sqrt 2 * u / 70)) [64, - 64, 64, - 64, 48, - 48, - 48, 48],
              replicate 8 (Fin 1)]"

text \<open>
  The constraint matrix of the coordinates as stored, the one of the pixels, and the one
  of the normalised pixels (scales \<open>\<surd>2/5\<close> and \<open>\<surd>2/70\<close>, centroids at the origin).
\<close>

definition A_direct :: matrix where
  "A_direct =
    [[Fin 768, Fin 576, Fin 96, Fin 1024, Fin 768, Fin 128, Fin 8, Fin 6, Fin 1],
     [Fin (- 768), Fin 576, Fin 96, Fin 1024, Fin (- 768), Fin (- 128), Fin (- 8), Fin 6,
      Fin 1],
     [Fin (- 768), Fin 576, Fin (- 96), Fin 1024, Fin (- 768), Fin 128, Fin 8, Fin (- 6),
      Fin 1],
     [Fin 768, Fin 576, Fin (- 96), Fin 1024, Fin 768, Fin (- 128), Fin (- 8), Fin (- 6),
      Fin 1],
     [Fin 432, Fin 576, Fin 72, Fin 576, Fin 768, Fin 96, Fin 6, Fin 8, Fin 1],
     [Fin (- 432), Fin 576, Fin 72, Fin 576, Fin (- 768), Fin (- 96), Fin (- 6), Fin 8,
      Fin 1],
     [Fin (- 432), Fin 576, Fin (- 72), Fin (- 576), Fin 768, Fin (- 96), Fin 6, Fin (- 8),
      Fin 1],
     [Fin 432, Fin 576, Fin (- 72), Fin (- 576), Fin (- 768), Fin 96, Fin (- 6), Fin (- 8),
      Fin 1]]"

definition A_pixel :: matrix where
  "A_pixel =
    [[Fin 192, Fin 144, Fin 48, Fin 256, Fin 192, Fin 64, Fin 4, Fin 3, Fin 1],
     [Fin (- 192), Fin 144, Fin 48, Fin 256, Fin (- 192), Fin (- 64), Fin (- 4), Fin 3,
      Fin 1],
     [Fin (- 192), Fin 144, Fin (- 48), Fin 256, Fin (- 192), Fin 64, Fin 4, Fin (- 3),
      Fin 1],
     [Fin 192, Fin 144, Fin (- 48), Fin 256, Fin 192, Fin (- 64), Fin (- 4), Fin (- 3),
      Fin 1],
     [Fin 108, Fin 144, Fin 36, Fin 144, Fin 192, Fin 48, Fin 3, Fin 4, Fin 1],
     [Fin (- 108), Fin 144, Fin 36, Fin 144, Fin (- 192), Fin (- 48), Fin (- 3), Fin 4,
      Fin 1],
     [Fin (- 108), Fin 144, Fin (- 36), Fin (- 144), Fin 192, Fin (- 48), Fin 3, Fin (- 4),
      Fin 1],
     [Fin 108, Fin 144, Fin (- 36), Fin (- 144), Fin (- 192), Fin 48, Fin (- 3), Fin (- 4),
      Fin 1]]"

definition A_normalised :: matrix where
  "A_normalised =
    [[Fin (192 / 175), Fin (144 / 175), Fin (24 * sqrt 2 / 35), Fin (256 / 175),
      Fin (192 / 175), Fin (32 * sqrt 2 / 35), Fin (sqrt 2 * 4 / 5), Fin (sqrt 2 * 3 / 5),
      Fin 1],
     [Fin (- (192 / 175)), Fin (144 / 175), Fin (24 * sqrt 2 / 35), Fin (256 / 175),
      Fin (- (192 / 175)), Fin (- (32 * sqrt 2 / 35)), Fin (- (sqrt 2 * 4 / 5)),
      Fin (sqrt 2 * 3 / 5), Fin 1],
     [Fin (- (192 / 175)), Fin (144 / 175), Fin (- (24 * sqrt 2 / 35)), Fin (256 / 175),
      Fin (- (192 / 175)), Fin (32 * sqrt 2 / 35), Fin (sqrt 2 * 4 / 5),
      Fin (- (sqrt 2 * 3 / 5)), Fin 1],
     [Fin (192 / 175), Fin (144 / 175), Fin (- (24 * sqrt 2 / 35)), Fin (256 / 175),
      Fin (192 / 175), Fin (- (32 * sqrt 2 / 35)), Fin (- (sqrt 2 * 4 / 5)),
      Fin (- (sqrt 2 * 3 / 5)), Fin 1],
     [Fin (108 / 175), Fin (144 / 175), Fin (18 * sqrt 2 / 35), Fin (144 / 175),
      Fin (192 / 175), Fin (24 * sqrt 2 / 35), Fin (sqrt 2 * 3 / 5), Fin (sqrt 2 * 4 / 5),
      Fin 1],
     [Fin (- (108 / 175)), Fin (144 / 175), Fin (18 * sqrt 2 / 35), Fin (144 / 175),
      Fin (- (192 / 175)), Fin (- (24 * sqrt 2 / 35)), Fin (- (sqrt 2 * 3 / 5)),
      Fin (sqrt 2 * 4 / 5), Fin 1],
     [Fin (- (108 / 175)), Fin (144 / 175), Fin (- (18 * sqrt 2 / 35)),
      Fin (- (144 / 175)), Fin (192 / 175), Fin (- (24 * sqrt 2 / 35)),
      Fin (sqrt 2 * 3 / 5), Fin (- (sqrt 2 * 4 / 5)), Fin 1],
     [Fin (108 / 175), Fin (144 / 175), Fin (- (18 * sqrt 2 / 35)), Fin (- (144 / 175)),
      Fin (- (192 / 175)), Fin (24 * sqrt 2 / 35), Fin (- (sqrt 2 * 3 / 5)),
      Fin (- (sqrt 2 * 4 / 5)), Fin 1]]"

text \<open>
  The unit vectors that span the kernels of the three matrices, reshaped: what numpy's SVD
  returns as last right singular vector, up to sign.
\<close>

definition F0_direct :: matrix where
  "F0_direct = [[Fin 0, Fin (1 / sqrt 331777), Fin 0], [Fin 0, Fin 0, Fin 0],
                [Fin 0, Fin 0, Fin (- (576 / sqrt 331777))]]"

definition F0_pixel :: matrix where
  "F0_pixel = [[Fin 0, Fin (1 / sqrt 20737), Fin 0], [Fin 0, Fin 0, Fin 0],
               [Fin 0, Fin 0, Fin (- (144 / sqrt 20737))]]"

definition F0_normalised :: matrix where
  "F0_normalised = [[Fin 0, Fin (175 / sqrt 51361), Fin 0], [Fin 0, Fin 0, Fin 0],
                    [Fin 0, Fin 0, Fin (- (144 / sqrt 51361))]]"

text \<open>The normalised estimate mapped back to pixel coordinates.\<close>

definition F_denormalised :: matrix where
  "F_denormalised = [[Fin 0, Fin (1 / sqrt 51361), Fin 0], [Fin 0, Fin 0, Fin 0],
                     [Fin 0, Fin 0, Fin (- (144 / sqrt 51361))]]"

text \<open>
  A \<open>9\<times>9\<close> factor \<open>Vh\<close> of which the last row is given. The code reads no other row, and
  neither \<open>U\<close> nor the singular values of the constraint matrix: the table below leaves
  them empty.
\<close>

definition last_row :: "fl list \<Rightarrow> matrix" where
  "last_row v = replicate 8 (replicate 9 (Fin 0)) @ [v]"

text \<open>
  The decompositions of the example: for each constraint matrix the last row of \<open>Vh\<close>,
  and for each reshaped vector, which has rank 2 already, its three factors.
\<close>

definition svd_example :: svd_fn where
  "svd_example = svd_table
     [(A_normalised, ([], [],
         last_row [Fin 0, Fin (175 / sqrt 51361), Fin 0, Fin 0, Fin 0, Fin 0, Fin 0, Fin 0,
                   Fin (- (144 / sqrt 51361))])),
      (A_direct, ([], [],
         last_row [Fin 0, Fin (1 / sqrt 331777), Fin 0, Fin 0, Fin 0, Fin 0, Fin 0, Fin 0,
                   Fin (- (576 / sqrt 331777))])),
      (A_pixel, ([], [],
         last_row [Fin 0, Fin (1 / sqrt 20737), Fin 0, Fin 0, Fin 0, Fin 0, Fin 0, Fin 0,
                   Fin (- (144 / sqrt 20737))])),
      (F0_normalised,
         (map (map Fin) [[1, 0, 0], [0, 0, 1], [0, - 1, 0]],
          [Fin (175 / sqrt 51361), Fin (144 / sqrt 51361), Fin 0],
          map (map Fin) [[0, 1, 0], [0, 0, 1], [1, 0, 0]])),
      (F0_direct,
         (map (map Fin) [[0, 1, 0], [0, 0, 1], [- 1, 0, 0]],
          [Fin (576 / sqrt 331777), Fin (1 / sqrt 331777), Fin 0],
          map (map Fin) [[0, 0, 1], [0, 1, 0], [1, 0, 0]])),
      (F0_pixel,
         (map (map Fin) [[0, 1, 0], [0, 0, 1], [- 1, 0, 0]],
          [Fin (144 / sqrt 20737), Fin (1 / sqrt 20737), Fin 0],
          map (map Fin) [[0, 0, 1], [0, 1, 0], [1, 0, 0]]))]"












section \<open>Validation\<close>

lemma pip_only_shape_errors:
  "process_input_pointpairs s args = Inl e \<Longrightarrow> \<exists>m. e = ShapeError m"
  by (auto simp: process_input_pointpairs_def Let_def alloc_def split: list.splits if_splits)

text \<open>
  C4, for the errors the validation has. \<open>process_input_pointpairs\<close> raises nothing
  but \<open>ShapeError\<close>: for a wrong number of arguments, two shapes that differ, an array
  that is not two-dimensional, fewer than 8 points, an unsupported width. Whenever it does,
  \<open>fundamental_matrix\<close> prints the message, returns \<open>None\<close> and leaves the store as it
  was. It has no check for degenerate input. An exception of another kind that the solver
  raises is not caught: it leaves \<open>fundamental_matrix\<close> as that exception, and no matrix
  is returned in its place.
\<close>

theorem validation_error_yields_no_matrix:
  "(process_input_pointpairs s args = Inl e \<longrightarrow>
     (\<exists>m. e = ShapeError m \<and>
       fundamental_matrix svd s args normalize_flag =
         (s, [''ShapeError, exception message: '' @ m], Inr None)))
   \<and> (process_input_pointpairs s args = Inr (s1, x1, x2, n) \<and>
      eight_point_algorithm svd s1 x1 x2 normalize_flag = (s2, Inl e') \<and>
      (\<forall>m. e' \<noteq> ShapeError m) \<longrightarrow>
     fundamental_matrix svd s args normalize_flag = (s2, [], Inl e'))"
  using pip_only_shape_errors[of s args e]
  by (auto simp: fundamental_matrix_def split: exn.splits)

lemma pip_seven_example:
  "process_input_pointpairs [zeros 7 2, zeros 7 2] [0, 1] =
     Inl (ShapeError ''At least 8 points are needed to compute the fundamental matrix'')"
  by (simp add: process_input_pointpairs_def zeros_def)

lemma svd_table_empty: "svd_table [] M = Inl LinAlgError"
  by (simp add: svd_table_def)

lemma norm_242:
  "normalize2dpts [arr3 pts_242, arr3 pts_242] (Whole 0) =
     Inr ([arr3 pts_121, arr3 pts_242],
          [replicate 8 NaN, replicate 8 NaN, replicate 8 (Fin 1)],
          [[PInf, Fin 0, NInf], [Fin 0, PInf, NInf], [Fin 0, Fin 0, Fin 1]])"
  "normalize2dpts [arr3 pts_121, arr3 pts_242] (Whole (Suc 0)) =
     Inr ([arr3 pts_121,
           arr3 pts_121],
          [replicate 8 NaN, replicate 8 NaN, replicate 8 (Fin 1)],
          [[PInf, Fin 0, NInf], [Fin 0, PInf, NInf], [Fin 0, Fin 0, Fin 1]])"
  by (simp_all add: normalize2dpts_def arr3_def pts_242_def pts_121_def Let_def eps_def div_where_def
      set_where_def select_def fmean_def dot_def fsub_def eval_nat_numeral)

lemma epa_242:
  "eight_point_algorithm (svd_table []) [arr3 pts_242, arr3 pts_242] (Whole 0) (Whole 1) True =
     ([arr3 pts_121,
       arr3 pts_121], Inl LinAlgError)"
  using norm_242
  by (simp add: eight_point_algorithm_def svd_table_empty constraint_matrix_def ebind_def Let_def)

lemma pip_242:
  "process_input_pointpairs [arr3 pts_242, arr3 pts_242] [0, 1] =
     Inr ([arr3 pts_242, arr3 pts_242], Whole 0, Whole 1, 8)"
  by (simp add: process_input_pointpairs_def arr3_def Let_def)

theorem validation_error_yields_no_matrix_witness:
  "fundamental_matrix (svd_table []) [zeros 7 2, zeros 7 2] [0, 1] True =
     ([zeros 7 2, zeros 7 2],
      [''ShapeError, exception message: At least 8 points are needed to compute the fundamental matrix''],
      Inr None)
   \<and> fundamental_matrix (svd_table []) [arr3 pts_242, arr3 pts_242] [0, 1] True =
     ([arr3 pts_121,
       arr3 pts_121], [], Inl LinAlgError)"
proof -
  let ?d = "[arr3 pts_121,
       arr3 pts_121]"
  have a: "fundamental_matrix (svd_table []) [zeros 7 2, zeros 7 2] [0, 1] True =
     ([zeros 7 2, zeros 7 2],
      [''ShapeError, exception message: At least 8 points are needed to compute the fundamental matrix''],
      Inr None)"
    using validation_error_yields_no_matrix [where s = "[zeros 7 2, zeros 7 2]"
        and args = "[0, 1]" and svd = "svd_table []" and normalize_flag = True
        and e = "ShapeError ''At least 8 points are needed to compute the fundamental matrix''"]
      pip_seven_example
    by auto
  have b: "fundamental_matrix (svd_table []) [arr3 pts_242, arr3 pts_242] [0, 1] True =
     (?d, [], Inl LinAlgError)"
    using validation_error_yields_no_matrix [where s = "[arr3 pts_242, arr3 pts_242]"
        and args = "[0, 1]" and svd = "svd_table []" and normalize_flag = True
        and ?s1.0 = "[arr3 pts_242, arr3 pts_242]" and ?x1.0 = "Whole 0" and ?x2.0 = "Whole 1"
        and n = 8 and ?s2.0 = ?d and e' = LinAlgError]
      pip_242 epa_242
    by simp
  show ?thesis
    using a b by simp
qed

lemma norm_110:
  "normalize2dpts [arr3 pts_110, arr3 pts_110] v =
     (if v = Whole 0 \<or> v = Whole (Suc 0) then Inr ([arr3 pts_110, arr3 pts_110], [replicate 8 NaN, replicate 8 NaN, replicate 8 (Fin 0)],
          [[NaN, Fin 0, NaN], [Fin 0, NaN, NaN], [Fin 0, Fin 0, Fin 1]]) else normalize2dpts [arr3 pts_110, arr3 pts_110] v)"
  by (simp add: normalize2dpts_def arr3_def pts_110_def Let_def eps_def div_where_def
      set_where_def select_def fmean_def dot_def fsub_def eval_nat_numeral)

lemma epa_110:
  "eight_point_algorithm (svd_table []) [arr3 pts_110, arr3 pts_110] (Whole 0) (Whole 1) True =
     ([arr3 pts_110, arr3 pts_110], Inl LinAlgError)"
  using norm_110[of "Whole 0"] norm_110[of "Whole 1"]
  by (simp add: eight_point_algorithm_def svd_table_empty constraint_matrix_def ebind_def Let_def)

lemma pip_110:
  "process_input_pointpairs [arr3 pts_110, arr3 pts_110] [0, 1] =
     Inr ([arr3 pts_110, arr3 pts_110], Whole 0, Whole 1, 8)"
  by (simp add: process_input_pointpairs_def arr3_def Let_def)

text \<open>
  Eight points at infinity \<open>(1, 1, 0)\<close> in both images, with normalisation. The
  validation accepts them; \<open>normalize2dpts\<close> finds no finite point and returns NaN
  coordinates; the constraint matrix is NaN throughout, and a decomposition that fails on
  it, as numpy's does with \<open>LinAlgError\<close>, ends the call with that exception: there is
  no error of the validation, and no \<open>None\<close>.
\<close>

theorem degenerate_input_not_detected:
  "fundamental_matrix (svd_table []) [arr3 pts_110, arr3 pts_110] [0, 1] True =
     ([arr3 pts_110, arr3 pts_110], [], Inl LinAlgError)"
  using pip_110 epa_110 by (simp add: fundamental_matrix_def)

lemma pip_seven:
  assumes "shape (s ! a1) = shape (s ! a2)" "length (shape (s ! a1)) = 2"
    "max (shape (s ! a1) ! 0) (shape (s ! a1) ! 1) = 7"
  shows "process_input_pointpairs s [a1, a2] =
      Inl (ShapeError ''At least 8 points are needed to compute the fundamental matrix'')"
proof -
  have "max (shape (s ! a1) ! 0) (shape (s ! a1) ! 1) < 8"
    using assms(3) by arith
  then show ?thesis
    unfolding process_input_pointpairs_def Let_def using assms(1,2) by simp
qed

lemma pip_mismatch:
  assumes "shape (s ! a1) \<noteq> shape (s ! a2)"
  shows "process_input_pointpairs s [a1, a2] =
      Inl (ShapeError ''the two arguments should have same size'')"
  unfolding process_input_pointpairs_def Let_def using assms by simp

lemma pip_width5:
  assumes "length (shape (s ! a)) = 2" "min (shape (s ! a) ! 0) (shape (s ! a) ! 1) = 5"
    "8 \<le> max (shape (s ! a) ! 0) (shape (s ! a) ! 1)"
  shows "process_input_pointpairs s [a] =
      Inl (ShapeError ''Single argument x must be 4xN or Nx4 or 6xN or Nx6'')"
proof -
  have "\<not> max (shape (s ! a) ! 0) (shape (s ! a) ! 1) < 8"
    using assms(3) by arith
  then show ?thesis
    unfolding process_input_pointpairs_def Let_def using assms(1,2) by simp
qed

text \<open>
  C5. The validation rules apply in order. Two two-dimensional arrays of one shape whose
  larger dimension is 7 are refused for having fewer than 8 points; two arrays of
  different shapes are refused for their sizes; a single two-dimensional array whose
  smaller dimension is 5, with at least 8 points along the other, is refused for its
  width.
\<close>

theorem validation_boundaries:
  "(shape (s ! a1) = shape (s ! a2) \<and> length (shape (s ! a1)) = 2 \<and>
      max (shape (s ! a1) ! 0) (shape (s ! a1) ! 1) = 7 \<longrightarrow>
    process_input_pointpairs s [a1, a2] =
      Inl (ShapeError ''At least 8 points are needed to compute the fundamental matrix''))
   \<and> (shape (s ! a1) \<noteq> shape (s ! a2) \<longrightarrow>
    process_input_pointpairs s [a1, a2] =
      Inl (ShapeError ''the two arguments should have same size''))
   \<and> (length (shape (s ! a)) = 2 \<and> min (shape (s ! a) ! 0) (shape (s ! a) ! 1) = 5 \<and>
      8 \<le> max (shape (s ! a) ! 0) (shape (s ! a) ! 1) \<longrightarrow>
    process_input_pointpairs s [a] =
      Inl (ShapeError ''Single argument x must be 4xN or Nx4 or 6xN or Nx6''))"
  using pip_seven pip_mismatch pip_width5 by blast

theorem validation_boundaries_witness:
  "process_input_pointpairs [zeros 7 2, zeros 7 2, zeros 8 2, zeros 5 8, zeros 8 5] [0, 1] =
      Inl (ShapeError ''At least 8 points are needed to compute the fundamental matrix'')
   \<and> process_input_pointpairs [zeros 7 2, zeros 7 2, zeros 8 2, zeros 5 8, zeros 8 5] [0, 2] =
      Inl (ShapeError ''the two arguments should have same size'')
   \<and> process_input_pointpairs [zeros 7 2, zeros 7 2, zeros 8 2, zeros 5 8, zeros 8 5] [3] =
      Inl (ShapeError ''Single argument x must be 4xN or Nx4 or 6xN or Nx6'')
   \<and> process_input_pointpairs [zeros 7 2, zeros 7 2, zeros 8 2, zeros 5 8, zeros 8 5] [4] =
      Inl (ShapeError ''Single argument x must be 4xN or Nx4 or 6xN or Nx6'')"
  using validation_boundaries
      [of "[zeros 7 2, zeros 7 2, zeros 8 2, zeros 5 8, zeros 8 5]" 0 1 3]
    validation_boundaries
      [of "[zeros 7 2, zeros 7 2, zeros 8 2, zeros 5 8, zeros 8 5]" 0 2 4]
  by (simp add: zeros_def)

text \<open>
  C10. With no array, or with three or more, \<open>process_input_pointpairs\<close> raises the
  \<open>ShapeError\<close> of a wrong argument count; \<open>fundamental_matrix\<close> catches it like every
  other \<open>ShapeError\<close>, prints the message and returns \<open>None\<close>.
\<close>

theorem wrong_argument_count_returns_none:
  "length args \<noteq> 1 \<Longrightarrow> length args \<noteq> 2 \<Longrightarrow>
   fundamental_matrix svd s args normalize_flag =
     (s, [''ShapeError, exception message: Wrong number of arguments supplied''], Inr None)"
  by (auto simp: fundamental_matrix_def process_input_pointpairs_def split: list.splits)

theorem wrong_argument_count_returns_none_witness:
  "fundamental_matrix (svd_table []) [zeros 8 2, zeros 8 2, zeros 8 2] [] True =
     ([zeros 8 2, zeros 8 2, zeros 8 2],
      [''ShapeError, exception message: Wrong number of arguments supplied''], Inr None)
   \<and> fundamental_matrix (svd_table []) [zeros 8 2, zeros 8 2, zeros 8 2] [0, 1, 2] False =
     ([zeros 8 2, zeros 8 2, zeros 8 2],
      [''ShapeError, exception message: Wrong number of arguments supplied''], Inr None)"
  using wrong_argument_count_returns_none
      [of "[]" "svd_table []" "[zeros 8 2, zeros 8 2, zeros 8 2]" True]
    wrong_argument_count_returns_none
      [of "[0, 1, 2]" "svd_table []" "[zeros 8 2, zeros 8 2, zeros 8 2]" False]
  by simp

section \<open>The constraint matrix\<close>

lemma fdiv_one: "fdiv x (Fin 1) = x"
  by (cases x) auto

lemma transpose_rect:
  assumes "\<forall>r \<in> set M. length r = n" "M \<noteq> []"
  shows "length (transpose M) = n" "i < n \<Longrightarrow> transpose M ! i = map (\<lambda>r. r ! i) M"
proof -
  have "(\<forall>r \<in> set M. length r = n) \<Longrightarrow>
      foldr (\<lambda>xs. max (length xs)) M 0 = (if M = [] then 0 else n)"
    by (induction M) auto
  then have "foldr (\<lambda>xs. max (length xs)) M 0 = n"
    using assms by simp
  then show l: "length (transpose M) = n"
    by (simp add: length_transpose)
  assume "i < n"
  then have "transpose M ! i = map (\<lambda>xs. xs ! i) (filter (\<lambda>ys. i < length ys) M)"
    using l by (simp add: nth_transpose)
  moreover have "filter (\<lambda>ys. i < length ys) M = M"
    using assms(1) \<open>i < n\<close> by (simp add: filter_id_conv)
  ultimately show "transpose M ! i = map (\<lambda>r. r ! i) M"
    by simp
qed

lemma constraint_matrix_rows:
  assumes "length a0 = n" "length a1 = n" "length b0 = n" "length b1 = n"
  shows "\<exists>A. constraint_matrix t1 (a0 # a1 # as) t2 (b0 # b1 # bs) = Inr A \<and> length A = n \<and>
    (\<forall>i<n. A ! i = [np_mul t2 t1 (b0 ! i) (a0 ! i), np_mul t2 t1 (b0 ! i) (a1 ! i), b0 ! i,
                    np_mul t2 t1 (b1 ! i) (a0 ! i), np_mul t2 t1 (b1 ! i) (a1 ! i), b1 ! i,
                    a0 ! i, a1 ! i, Fin 1])"
proof -
  let ?M = "[vmul t2 t1 b0 a0, vmul t2 t1 b0 a1, b0, vmul t2 t1 b1 a0, vmul t2 t1 b1 a1, b1,
           a0, a1, replicate n (Fin 1)]"
  have r: "\<forall>r \<in> set ?M. length r = n"
    using assms by (simp add: vmul_def)
  have "constraint_matrix t1 (a0 # a1 # as) t2 (b0 # b1 # bs) = Inr (transpose ?M)"
    using assms by (simp add: constraint_matrix_def Let_def)
  moreover have "length (transpose ?M) = n"
    using transpose_rect(1)[OF r] by simp
  moreover have "\<forall>i<n. transpose ?M ! i =
      [np_mul t2 t1 (b0 ! i) (a0 ! i), np_mul t2 t1 (b0 ! i) (a1 ! i), b0 ! i,
       np_mul t2 t1 (b1 ! i) (a0 ! i), np_mul t2 t1 (b1 ! i) (a1 ! i), b1 ! i,
       a0 ! i, a1 ! i, Fin 1]"
  proof (intro allI impI)
    fix i assume i: "i < n"
    have "transpose ?M ! i = map (\<lambda>r. r ! i) ?M"
      using transpose_rect(2)[OF r _ i] by simp
    then show "transpose ?M ! i =
      [np_mul t2 t1 (b0 ! i) (a0 ! i), np_mul t2 t1 (b0 ! i) (a1 ! i), b0 ! i,
       np_mul t2 t1 (b1 ! i) (a0 ! i), np_mul t2 t1 (b1 ! i) (a1 ! i), b1 ! i,
       a0 ! i, a1 ! i, Fin 1]"
      using i assms by (simp add: vmul_def)
  qed
  ultimately show ?thesis
    by blast
qed

text \<open>
  The products are those of the arrays' element type: between two integer arrays
  \<open>2\<^sup>3\<^sup>2 \<cdot> 2\<^sup>3\<^sup>2\<close> wraps around to 0.
\<close>

lemma np_mul_wraps:
  "np_mul Integer Integer (Fin (2 ^ 32)) (Fin (2 ^ 32)) = Fin 0"
  "np_mul Integer Floating (Fin (2 ^ 32)) (Fin (2 ^ 32)) = Fin (2 ^ 64)"
  by (simp_all add: np_mul_def wrap64_def)

text \<open>
  Where the builder and the specification agree: on two float arrays whose third
  coordinates are 1, every row is the row built from de-homogenised coordinates.
\<close>

lemma constraint_matrix_rows_unit_w:
  assumes "length a0 = n" "length a1 = n" "length b0 = n" "length b1 = n"
  shows "\<exists>A. constraint_matrix Floating [a0, a1, a2] Floating [b0, b1, b2] = Inr A \<and>
    length A = n \<and>
    (\<forall>i<n. a2 ! i = Fin 1 \<and> b2 ! i = Fin 1 \<longrightarrow>
       A ! i = spec_constraint_row [a0, a1, a2] [b0, b1, b2] i)"
proof -
  obtain A where A: "constraint_matrix Floating [a0, a1, a2] Floating [b0, b1, b2] = Inr A"
    "length A = n"
    "\<forall>i<n. A ! i = [np_mul Floating Floating (b0 ! i) (a0 ! i),
                    np_mul Floating Floating (b0 ! i) (a1 ! i), b0 ! i,
                    np_mul Floating Floating (b1 ! i) (a0 ! i),
                    np_mul Floating Floating (b1 ! i) (a1 ! i), b1 ! i,
                    a0 ! i, a1 ! i, Fin 1]"
    using constraint_matrix_rows[OF assms] by blast
  have "\<forall>i<n. a2 ! i = Fin 1 \<and> b2 ! i = Fin 1 \<longrightarrow>
       A ! i = spec_constraint_row [a0, a1, a2] [b0, b1, b2] i"
    using A(3) by (simp add: spec_constraint_row_def Let_def fdiv_one np_mul_def)
  then show ?thesis
    using A by blast
qed

text \<open>
  C8. The left points \<open>(2, 4, 2)\<close>, the pixel \<open>(1, 2)\<close> in homogeneous coordinates, and
  the right points \<open>(1, 1, 1)\<close>, eight of each in two float arrays. Every row of the
  constraint matrix is \<open>(2, 4, 1, 2, 4, 1, 2, 4, 1)\<close>: the builder reads the first two
  coordinates as stored and never the third. The row of the de-homogenised coordinates is
  \<open>(1, 2, 1, 1, 2, 1, 1, 2, 1)\<close>. The builder is given such points whenever
  \<open>eight_point_algorithm\<close> runs without normalisation; with normalisation
  \<open>normalize2dpts\<close> has divided by the third coordinate before.
\<close>

theorem constraint_matrix_not_dehomogenised:
  "constraint_matrix Floating pts_242 Floating pts_111 =
     Inr (replicate 8 [Fin 2, Fin 4, Fin 1, Fin 2, Fin 4, Fin 1, Fin 2, Fin 4, Fin 1])
   \<and> spec_constraint_row pts_242 pts_111 0 =
     [Fin 1, Fin 2, Fin 1, Fin 1, Fin 2, Fin 1, Fin 1, Fin 2, Fin 1]
   \<and> constraint_matrix Floating pts_242 Floating pts_111 \<noteq>
     Inr (map (spec_constraint_row pts_242 pts_111) [0, 1, 2, 3, 4, 5, 6, 7])"
  by (simp add: constraint_matrix_def pts_242_def pts_111_def vmul_def np_mul_def
      spec_constraint_row_def Let_def eval_nat_numeral)

section \<open>The symmetric epipolar distance\<close>

text \<open>
  C1. One correspondence, the pixel \<open>(0, 0)\<close> in both images, with the epipolar lines
  \<open>(2, 0, 2)\<close> that the matrix with rows \<open>(0, 0, 2)\<close>, \<open>(0, 0, 0)\<close>, \<open>(2, 0, 2)\<close> gives it.
  The residual is 2 and the normal has length 2: the code divides the squared residual by
  the length and returns \<open>4/2 + 4/2 = 4\<close>, where the squared distances add up to
  \<open>4/4 + 4/4 = 2\<close>.
\<close>

theorem epipolar_distance_divides_by_norm:
  "epipolar_distance [(Fin 0, Fin 0)] [(Fin 0, Fin 0)]
       [(Fin 2, Fin 0, Fin 2)] [(Fin 2, Fin 0, Fin 2)] = Inr (Fin 4)
   \<and> spec_symmetric_epipolar_distance [(Fin 0, Fin 0)] [(Fin 0, Fin 0)]
       [(Fin 2, Fin 0, Fin 2)] [(Fin 2, Fin 0, Fin 2)] = Fin 2"
  by (simp add: epipolar_distance_def spec_symmetric_epipolar_distance_def fmean_def)

section \<open>Normalisation\<close>

lemma fsum_Fin: "fsum (map Fin xs) = Fin (sum_list xs)"
  by (induction xs) auto

lemma fmean_Fin: "xs \<noteq> [] \<Longrightarrow> fmean (map Fin xs) = Fin (mean xs)"
  by (simp add: fmean_def fsum_Fin mean_def)

lemma np_abs_Floating: "np_abs Floating x = fabs x"
  by (cases x) simp_all

lemma np_abs_small: "\<not> fgt (fabs w) eps \<Longrightarrow> \<not> fgt (np_abs t w) eps"
  by (cases t; cases w) (auto simp: eps_def)

lemma finiteind_all:
  "\<forall>w \<in> set ws. 1 / 2 ^ 52 < \<bar>w\<bar> \<Longrightarrow>
   map (\<lambda>w. fgt (fabs w) eps) (map Fin ws) = replicate (length ws) True"
  by (induction ws) (auto simp: eps_def)

lemma div_where_all:
  "length xs = length ws \<Longrightarrow> \<forall>w \<in> set ws. w \<noteq> 0 \<Longrightarrow>
   div_where Floating (map Fin xs) (map Fin ws) (replicate (length ws) True) = map Fin (dehom xs ws)"
  by (induction xs ws rule: list_induct2) (auto simp: div_where_def dehom_def)

lemma set_where_all:
  "set_where zs c (replicate (length zs) True) = replicate (length zs) c"
  by (induction zs) (auto simp: set_where_def)

lemma select_all: "select zs (replicate (length zs) True) = zs"
  by (induction zs) (auto simp: select_def)

lemma sub_Fin: "map (\<lambda>x. fsub x (Fin c)) (map Fin us) = map Fin (map (\<lambda>u. u - c) us)"
  by (simp add: fsub_def)

lemma dist_Fin:
  "map2 (\<lambda>a b. fsqrt (fadd (fmul a a) (fmul b b))) (map Fin as) (map Fin bs)
   = map Fin (map2 (\<lambda>a b. sqrt (a * a + b * b)) as bs)"
proof (induction as arbitrary: bs)
  case Nil then show ?case by simp
next
  case (Cons a as) then show ?case
    using add_nonneg_nonneg[OF zero_le_square zero_le_square, of a "hd bs"]
    by (cases bs) (auto simp: not_less[symmetric])
qed

lemma transpose_pts:
  assumes "length us = n" "length vs = n"
  shows "transpose [map Fin us, map Fin vs, replicate n (Fin 1)]
     = map2 (\<lambda>u v. [Fin u, Fin v, Fin 1]) us vs"
proof (rule nth_equalityI)
  let ?M = "[map Fin us, map Fin vs, replicate n (Fin 1)]"
  have r: "\<forall>r \<in> set ?M. length r = n" using assms by simp
  show "length (transpose ?M) = length (map2 (\<lambda>u v. [Fin u, Fin v, Fin 1]) us vs)"
    using transpose_rect(1)[OF r] assms by simp
  fix i assume "i < length (transpose ?M)"
  then have i: "i < n" using transpose_rect(1)[OF r] by simp
  then show "transpose ?M ! i = map2 (\<lambda>u v. [Fin u, Fin v, Fin 1]) us vs ! i"
    using transpose_rect(2)[OF r _ i] assms by simp
qed

lemma dot_affine:
  assumes "length us = n" "length vs = n"
  shows "dot [[Fin a, Fin 0, Fin b], [Fin 0, Fin a, Fin c], [Fin 0, Fin 0, Fin 1]]
             [map Fin us, map Fin vs, replicate n (Fin 1)]
       = [map Fin (map (\<lambda>u. a * u + b) us), map Fin (map (\<lambda>v. a * v + c) vs),
          replicate n (Fin 1)]"
proof -
  have "length us = length vs" using assms by simp
  then have z: "map2 (\<lambda>u v. Fin (a * u + b)) us vs = map Fin (map (\<lambda>u. a * u + b) us)"
     "map2 (\<lambda>u v. Fin (a * v + c)) us vs = map Fin (map (\<lambda>v. a * v + c) vs)"
     "map2 (\<lambda>u v. Fin 1) us vs = replicate (length us) (Fin 1)"
    by (induction us vs rule: list_induct2; simp)+
  have "dot [[Fin a, Fin 0, Fin b], [Fin 0, Fin a, Fin c], [Fin 0, Fin 0, Fin 1]]
             [map Fin us, map Fin vs, replicate n (Fin 1)]
     = [map2 (\<lambda>u v. Fin (a * u + b)) us vs, map2 (\<lambda>u v. Fin (a * v + c)) us vs,
        map2 (\<lambda>u v. Fin 1) us vs]"
    unfolding dot_def transpose_pts[OF assms] by (simp add: split_def o_def)
  then show ?thesis using z assms by simp
qed

lemma mean_distance_alt:
  "mean (map2 (\<lambda>a b. sqrt (a * a + b * b)) (map (\<lambda>u. u - mean us) us) (map (\<lambda>v. v - mean vs) vs))
   = mean_distance us vs"
  by (simp add: mean_distance_def zip_map_map split_def o_def)

lemma normalize2dpts_finite:
  assumes vg: "view_get s v = [map Fin xs, map Fin ys, map Fin ws]"
    and len: "length xs = n" "length ys = n" "length ws = n"
    and fin: "\<forall>w \<in> set ws. 1 / 2 ^ 52 < \<bar>w\<bar>"
    and nz: "mean_distance (dehom xs ws) (dehom ys ws) \<noteq> 0"
    and ft: "dtype (s ! base v) = Floating"
  defines "us \<equiv> dehom xs ws" and "vs \<equiv> dehom ys ws"
  defines "sc \<equiv> sqrt 2 / mean_distance us vs"
  shows "normalize2dpts s v =
     Inr (view_put s v [map Fin us, map Fin vs, replicate n (Fin 1)],
          [map Fin (map (\<lambda>u. sc * u - sc * mean us) us),
           map Fin (map (\<lambda>v. sc * v - sc * mean vs) vs),
           replicate n (Fin 1)],
          [[Fin sc, Fin 0, Fin (- (sc * mean us))],
           [Fin 0, Fin sc, Fin (- (sc * mean vs))],
           [Fin 0, Fin 0, Fin 1]])"
proof -
  have lu: "length us = n" "length vs = n"
    using len by (simp_all add: us_def vs_def dehom_def)
  have n0: "n \<noteq> 0"
  proof
    assume "n = 0"
    then have "us = []" using lu by simp
    then show False using nz by (simp add: mean_distance_def mean_def us_def)
  qed
  then have ne: "us \<noteq> []" "vs \<noteq> []" using lu by auto
  have wnz: "\<forall>w \<in> set ws. w \<noteq> 0" using fin by auto
  have m: "map (\<lambda>w. fgt (fabs w) eps) (map Fin ws) = replicate n True"
    using finiteind_all[OF fin] len by simp
  have r0: "div_where Floating (map Fin xs) (map Fin ws) (replicate n True) = map Fin us"
    using div_where_all[of xs ws] wnz len by (simp add: us_def)
  have r1: "div_where Floating (map Fin ys) (map Fin ws) (replicate n True) = map Fin vs"
    using div_where_all[of ys ws] wnz len by (simp add: vs_def)
  have r2: "set_where (map Fin ws) (Fin 1) (replicate n True) = replicate n (Fin 1)"
    using set_where_all[of "map Fin ws" "Fin 1"] len by simp
  have s0: "select (map Fin us) (replicate n True) = map Fin us"
    using select_all[of "map Fin us"] lu by simp
  have s1: "select (map Fin vs) (replicate n True) = map Fin vs"
    using select_all[of "map Fin vs"] lu by simp
  have c0: "fmean (map Fin us) = Fin (mean us)" "fmean (map Fin vs) = Fin (mean vs)"
    using ne by (simp_all add: fmean_Fin)
  have md: "fmean (map2 (\<lambda>a b. fsqrt (fadd (fmul a a) (fmul b b)))
             (map (\<lambda>x. fsub x (Fin (mean us))) (map Fin us))
             (map (\<lambda>y. fsub y (Fin (mean vs))) (map Fin vs)))
        = Fin (mean_distance us vs)"
  proof -
    let ?L = "map2 (\<lambda>a b. sqrt (a * a + b * b)) (map (\<lambda>u. u - mean us) us)
                (map (\<lambda>v. v - mean vs) vs)"
    have ne2: "?L \<noteq> []"
      using ne lu by (cases us; cases vs; simp)
    have "fmean (map Fin ?L) = Fin (mean ?L)"
      by (rule fmean_Fin[OF ne2])
    then have "fmean (map Fin ?L) = Fin (mean_distance us vs)"
      by (simp only: mean_distance_alt)
    then show ?thesis
      by (simp only: sub_Fin dist_Fin)
  qed
  have sc: "fdiv (fsqrt (Fin 2)) (Fin (mean_distance us vs)) = Fin sc"
    using nz by (simp add: sc_def us_def vs_def)
  have d: "dot [[Fin sc, Fin 0, Fin (- (sc * mean us))], [Fin 0, Fin sc, Fin (- (sc * mean vs))], [Fin 0, Fin 0, Fin 1]]
             [map Fin us, map Fin vs, replicate n (Fin 1)]
       = [map Fin (map (\<lambda>u. sc * u - sc * mean us) us),
          map Fin (map (\<lambda>v. sc * v - sc * mean vs) vs), replicate n (Fin 1)]"
    using dot_affine[OF lu] by simp
  show ?thesis
    unfolding normalize2dpts_def Let_def vg ft np_abs_Floating
    by (simp add: m r0 r1 r2 s0 s1 c0 md sc d del: fsqrt.simps map_map)
qed








lemma select_none:
  "\<forall>w \<in> set ws. \<not> f w \<Longrightarrow> select r (map f ws) = []"
  by (auto simp: select_def filter_empty_conv dest: set_zip_rightD)

text \<open>
  C2, as the code has it. When no third coordinate exceeds machine epsilon in absolute
  value, \<open>normalize2dpts\<close> raises nothing: the centroid and the mean distance are means of
  empty selections, NaN, and the function returns a point set and a transform whose scale
  and translation are NaN.
\<close>

theorem normalize2dpts_no_finite_points:
  assumes "view_get s v = [xs, ys, ws]" "\<forall>w \<in> set ws. \<not> fgt (fabs w) eps"
  shows "\<exists>s' newpts. normalize2dpts s v =
     Inr (s', newpts, [[NaN, Fin 0, NaN], [Fin 0, NaN, NaN], [Fin 0, Fin 0, Fin 1]])"
proof -
  have "\<forall>w \<in> set ws. \<not> fgt (np_abs (dtype (s ! base v)) w) eps"
    using assms(2) np_abs_small by blast
  then show ?thesis
    using assms(1) by (simp add: normalize2dpts_def Let_def select_none fmean_def)
qed

theorem normalize2dpts_no_finite_points_witness:
  "\<exists>s' newpts. normalize2dpts [arr3 pts_110] (Whole 0) =
     Inr (s', newpts, [[NaN, Fin 0, NaN], [Fin 0, NaN, NaN], [Fin 0, Fin 0, Fin 1]])"
proof -
  have vg: "view_get [arr3 pts_110] (Whole 0) =
      [replicate 8 (Fin 1), replicate 8 (Fin 1), replicate 8 (Fin 0)]"
    by (simp add: arr3_def pts_110_def)
  have inf: "\<forall>w \<in> set (replicate 8 (Fin 0)). \<not> fgt (fabs w) eps"
    by (simp add: eps_def)
  show ?thesis
    by (rule normalize2dpts_no_finite_points[OF vg inf])
qed

theorem normalize2dpts_points_at_infinity:
  "normalize2dpts [arr3 pts_110] (Whole 0) =
     Inr ([arr3 pts_110], [replicate 8 NaN, replicate 8 NaN, replicate 8 (Fin 0)],
          [[NaN, Fin 0, NaN], [Fin 0, NaN, NaN], [Fin 0, Fin 0, Fin 1]])"
  by (simp add: normalize2dpts_def arr3_def pts_110_def Let_def eps_def div_where_def
      set_where_def select_def fmean_def dot_def fsub_def eval_nat_numeral)


lemma alt_vals:
  "dehom [2, - 2, 2, - 2, 2, - 2, 2, - 2] (replicate 8 2) = [1, - 1, 1, - 1, 1, - 1, 1, - 1]"
  "dehom (replicate 8 0) (replicate 8 2) = replicate 8 0"
  "mean [1, - 1, 1, - 1, 1, - 1, 1, - 1] = 0"
  "mean (replicate 8 0) = 0"
  "mean_distance [1, - 1, 1, - 1, 1, - 1, 1, - 1] (replicate 8 0) = 1"
  by (simp_all add: dehom_def mean_def mean_distance_def eval_nat_numeral)






section \<open>The caller's arrays\<close>

lemma view_put_other:
  "length (view_put s v P) = length s" "a \<noteq> base v \<Longrightarrow> view_put s v P ! a = s ! a"
  by (cases v; simp)+

lemma normalize2dpts_store:
  assumes "normalize2dpts s v = Inr (s', p, T)"
  shows "length s' = length s" "a \<noteq> base v \<Longrightarrow> s' ! a = s ! a"
  using assms by (auto simp: normalize2dpts_def Let_def view_put_other split: if_splits)

lemma normalize2dpts_Inl:
  "normalize2dpts s v = Inl e \<Longrightarrow> e = ShapeError ''pts must be 3xN''"
  by (auto simp: normalize2dpts_def Let_def split: if_splits)

lemma epa_store:
  assumes "eight_point_algorithm svd s x1 x2 nf = (s', r)"
  shows "length s' = length s \<and> (\<forall>a. a \<noteq> base x1 \<and> a \<noteq> base x2 \<longrightarrow> s' ! a = s ! a)
    \<and> (\<not> nf \<longrightarrow> s' = s)"
proof (cases nf)
  case False
  then show ?thesis
    using assms by (simp add: eight_point_algorithm_def)
next
  case True
  show ?thesis
  proof (cases "normalize2dpts s x1")
    case (Inl e)
    then show ?thesis
      using assms True by (simp add: eight_point_algorithm_def)
  next
    case (Inr res1)
    obtain s1 p1 T1 where res1: "res1 = (s1, p1, T1)"
      by (cases res1) auto
    note n1 = normalize2dpts_store[OF Inr[unfolded res1]]
    show ?thesis
    proof (cases "normalize2dpts s1 x2")
      case (Inl e)
      then have "s' = s1"
        using assms True Inr res1 by (simp add: eight_point_algorithm_def)
      then show ?thesis
        using n1 True by simp
    next
      case (Inr res2)
      obtain s2 p2 T2 where res2: "res2 = (s2, p2, T2)"
        by (cases res2) auto
      note n2 = normalize2dpts_store[OF Inr[unfolded res2]]
      have "s' = s2"
        using assms True \<open>normalize2dpts s x1 = Inr res1\<close> res1 Inr res2
        by (simp add: eight_point_algorithm_def)
      then show ?thesis
        using n1 n2 True by simp
    qed
  qed
qed

lemma preservedI:
  "length s \<le> length s' \<Longrightarrow> (\<And>a. a < length s \<Longrightarrow> s' ! a = s ! a) \<Longrightarrow> preserved s s'"
  unfolding preserved_def by (rule nth_equalityI) auto

lemma pip_store2:
  assumes "process_input_pointpairs s [a1, a2] = Inr (s1, x1, x2, n)"
  shows "preserved s s1"
    "small_dim (s ! a1) = 2 \<Longrightarrow> base x1 = length s \<and> base x2 = Suc (length s)"
    "small_dim (s ! a1) \<noteq> 2 \<Longrightarrow> s1 = s \<and> base x1 = a1 \<and> base x2 = a2"
  using assms unfolding process_input_pointpairs_def Let_def alloc_def preserved_def small_dim_def
  by (auto split: if_splits)

lemma pip_store1:
  assumes "process_input_pointpairs s [a] = Inr (s1, x1, x2, n)"
  shows "preserved s s1"
    "small_dim (s ! a) = 4 \<Longrightarrow> base x1 = length s \<and> base x2 = Suc (length s)"
    "small_dim (s ! a) \<noteq> 4 \<Longrightarrow> s1 = s \<and> base x1 = a \<and> base x2 = a"
  using assms unfolding process_input_pointpairs_def Let_def alloc_def preserved_def small_dim_def
  by (auto split: if_splits)

lemma pip_args:
  assumes "process_input_pointpairs s args = Inr res"
  shows "(\<exists>a1 a2. args = [a1, a2]) \<or> (\<exists>a. args = [a])"
  using assms unfolding process_input_pointpairs_def
  by (simp split: list.splits)

lemma preserved_nth:
  assumes "preserved s s'"
  shows "length s \<le> length s'" "a < length s \<Longrightarrow> s' ! a = s ! a"
proof -
  have t: "take (length s) s' = s"
    using assms by (simp add: preserved_def)
  then have "length (take (length s) s') = length s"
    by simp
  then show "length s \<le> length s'"
    by simp
  assume "a < length s"
  then have "take (length s) s' ! a = s' ! a"
    by simp
  then show "s' ! a = s ! a"
    using t by simp
qed

lemma fm_store:
  assumes "fundamental_matrix svd s args nf = (s', out, r)"
    and "process_input_pointpairs s args = Inr (s1, x1, x2, n)"
  shows "s' = fst (eight_point_algorithm svd s1 x1 x2 nf)"
  using assms
  by (auto simp: fundamental_matrix_def split: prod.splits sum.splits exn.splits)

lemma fm_store_Inl:
  assumes "fundamental_matrix svd s args nf = (s', out, r)"
    and "process_input_pointpairs s args = Inl e"
  shows "s' = s"
  using assms
  by (auto simp: fundamental_matrix_def split: exn.splits)

lemma fm_preserved:
  assumes fm: "fundamental_matrix svd s args nf = (s', out, r)"
    and lay: "\<not> nf \<or> (\<exists>a1 a2. args = [a1, a2] \<and> small_dim (s ! a1) = 2)
        \<or> (\<exists>a. args = [a] \<and> small_dim (s ! a) = 4)"
  shows "preserved s s'"
proof (cases "process_input_pointpairs s args")
  case (Inl e)
  then show ?thesis
    using fm_store_Inl[OF fm] by (simp add: preserved_def)
next
  case (Inr res)
  obtain s1 x1 x2 n where res: "res = (s1, x1, x2, n)"
    by (cases res) auto
  have pip: "process_input_pointpairs s args = Inr (s1, x1, x2, n)"
    using Inr res by simp
  obtain r' where epa: "eight_point_algorithm svd s1 x1 x2 nf = (s', r')"
    using fm_store[OF fm pip] by (cases "eight_point_algorithm svd s1 x1 x2 nf") auto
  note e = epa_store[OF epa]
  have p1: "preserved s s1"
    using pip pip_args[OF pip] pip_store1(1) pip_store2(1) by blast
  show ?thesis
  proof (cases nf)
    case False
    then show ?thesis using e p1 by simp
  next
    case True
    then have "base x1 = length s \<and> base x2 = Suc (length s)"
      using lay pip pip_store1(2) pip_store2(2) by blast
    then have "\<And>a. a < length s \<Longrightarrow> s' ! a = s ! a"
      using e preserved_nth(2)[OF p1] by simp
    moreover have "length s \<le> length s'"
      using e preserved_nth(1)[OF p1] by simp
    ultimately show ?thesis
      by (rule preservedI[rotated])
  qed
qed

lemma epa_store_eq:
  "fst (eight_point_algorithm svd s x1 x2 True) =
    (case normalize2dpts s x1 of Inl e \<Rightarrow> s
     | Inr (s1, p1, T1) \<Rightarrow>
        (case normalize2dpts s1 x2 of Inl e \<Rightarrow> s1 | Inr (s2, p2, T2) \<Rightarrow> s2))"
  by (simp add: eight_point_algorithm_def split: sum.splits prod.splits)

lemma fm_fst:
  "process_input_pointpairs s args = Inr (s1, x1, x2, n) \<Longrightarrow>
   fst (fundamental_matrix svd s args nf) = fst (eight_point_algorithm svd s1 x1 x2 nf)"
  by (auto simp: fundamental_matrix_def split: prod.splits sum.splits exn.splits)

lemma pip_alt:
  "process_input_pointpairs [arr3 pts_alt, arr3 pts_alt] [0, 1] =
     Inr ([arr3 pts_alt, arr3 pts_alt], Whole 0, Whole 1, 8)"
  by (simp add: process_input_pointpairs_def arr3_def Let_def)

lemma normalize_alt:
  assumes "view_get s v = pts_alt" "dtype (s ! base v) = Floating"
  shows "\<exists>p T. normalize2dpts s v = Inr (view_put s v pts_alt_w1, p, T)"
proof -
  have vg: "view_get s v =
      [map Fin [2, - 2, 2, - 2, 2, - 2, 2, - 2], map Fin (replicate 8 0), map Fin (replicate 8 2)]"
    using assms by (simp add: pts_alt_def)
  have len: "length [2, - 2, 2, - 2, 2, - 2, 2, - 2 :: real] = 8"
    "length (replicate 8 (0::real)) = 8" "length (replicate 8 (2::real)) = 8"
    by simp_all
  have fin: "\<forall>w \<in> set (replicate 8 (2::real)). 1 / 2 ^ 52 < \<bar>w\<bar>"
    by simp
  have nz: "mean_distance (dehom [2, - 2, 2, - 2, 2, - 2, 2, - 2] (replicate 8 2))
      (dehom (replicate 8 0) (replicate 8 2)) \<noteq> 0"
    by (simp add: alt_vals)
  show ?thesis
    using normalize2dpts_finite[OF vg len fin nz assms(2)]
    by (simp only: alt_vals pts_alt_w1_def) simp
qed

lemma pip_tall2:
  "process_input_pointpairs
     [arr_tall 2 (replicate 8 [Fin 0, Fin 0]), arr_tall 2 (replicate 8 [Fin 0, Fin 0])] [0, 1] =
   Inr ([arr_tall 2 (replicate 8 [Fin 0, Fin 0]), arr_tall 2 (replicate 8 [Fin 0, Fin 0]),
         arr3 pts_origin, arr3 pts_origin], Whole 2, Whole 3, 8)"
  by (simp add: process_input_pointpairs_def arr_tall_def arr3_def pts_origin_def Let_def
      alloc_def ones_def eval_nat_numeral)

lemma pip_tall4:
  "process_input_pointpairs [arr_tall 4 (replicate 8 [Fin 0, Fin 0, Fin 0, Fin 0])] [0] =
   Inr ([arr_tall 4 (replicate 8 [Fin 0, Fin 0, Fin 0, Fin 0]),
         arr3 pts_origin, arr3 pts_origin], Whole 1, Whole 2, 8)"
  by (simp add: process_input_pointpairs_def arr_tall_def arr3_def pts_origin_def Let_def
      alloc_def ones_def cols_of_def eval_nat_numeral)

text \<open>
  C3, as the code has it. A call leaves every array of the caller as it was when
  normalisation is off, and, with either flag, when the points are Euclidean: two arrays
  with smaller dimension 2 or one array with smaller dimension 4. For these layouts the
  canonical \<open>3\<times>N\<close> arrays are new arrays, allocated behind the caller's. (For the
  homogeneous layouts they are the caller's arrays or views of them.)
\<close>

theorem caller_arrays_preserved:
  "(fundamental_matrix svd s args normalize_flag = (s', out, r) \<and>
      (\<not> normalize_flag \<or> (\<exists>a1 a2. args = [a1, a2] \<and> small_dim (s ! a1) = 2)
        \<or> (\<exists>a. args = [a] \<and> small_dim (s ! a) = 4)) \<longrightarrow> preserved s s')
   \<and> (process_input_pointpairs s [a1, a2] = Inr (s1, x1, x2, n) \<and> small_dim (s ! a1) = 2 \<longrightarrow>
        preserved s s1 \<and> base x1 = length s \<and> base x2 = Suc (length s))
   \<and> (process_input_pointpairs s [a] = Inr (t1, y1, y2, m) \<and> small_dim (s ! a) = 4 \<longrightarrow>
        preserved s t1 \<and> base y1 = length s \<and> base y2 = Suc (length s))"
proof (intro conjI impI)
  assume "fundamental_matrix svd s args normalize_flag = (s', out, r) \<and>
      (\<not> normalize_flag \<or> (\<exists>a1 a2. args = [a1, a2] \<and> small_dim (s ! a1) = 2)
        \<or> (\<exists>a. args = [a] \<and> small_dim (s ! a) = 4))"
  then show "preserved s s'"
    using fm_preserved[of svd s args normalize_flag s' out r] by simp
next
  assume h: "process_input_pointpairs s [a1, a2] = Inr (s1, x1, x2, n) \<and> small_dim (s ! a1) = 2"
  then show "preserved s s1" "base x1 = length s" "base x2 = Suc (length s)"
    using pip_store2[of s a1 a2 s1 x1 x2 n] by simp_all
next
  assume h: "process_input_pointpairs s [a] = Inr (t1, y1, y2, m) \<and> small_dim (s ! a) = 4"
  then show "preserved s t1" "base y1 = length s" "base y2 = Suc (length s)"
    using pip_store1[of s a t1 y1 y2 m] by simp_all
qed

theorem caller_arrays_preserved_witness:
  "preserved [arr_tall 2 (replicate 8 [Fin 0, Fin 0]), arr_tall 2 (replicate 8 [Fin 0, Fin 0])]
     (fst (fundamental_matrix (svd_table [])
        [arr_tall 2 (replicate 8 [Fin 0, Fin 0]), arr_tall 2 (replicate 8 [Fin 0, Fin 0])] [0, 1] True))
   \<and> preserved [arr_tall 4 (replicate 8 [Fin 0, Fin 0, Fin 0, Fin 0])]
     (fst (fundamental_matrix (svd_table [])
        [arr_tall 4 (replicate 8 [Fin 0, Fin 0, Fin 0, Fin 0])] [0] True))
   \<and> preserved [arr3 pts_alt, arr3 pts_alt]
     (fst (fundamental_matrix (svd_table []) [arr3 pts_alt, arr3 pts_alt] [0, 1] False))
   \<and> preserved [arr_tall 2 (replicate 8 [Fin 0, Fin 0]), arr_tall 2 (replicate 8 [Fin 0, Fin 0])]
       [arr_tall 2 (replicate 8 [Fin 0, Fin 0]), arr_tall 2 (replicate 8 [Fin 0, Fin 0]),
         arr3 pts_origin, arr3 pts_origin]
   \<and> preserved [arr_tall 4 (replicate 8 [Fin 0, Fin 0, Fin 0, Fin 0])]
       [arr_tall 4 (replicate 8 [Fin 0, Fin 0, Fin 0, Fin 0]), arr3 pts_origin, arr3 pts_origin]"
proof -
  let ?s2 = "[arr_tall 2 (replicate 8 [Fin 0, Fin 0]), arr_tall 2 (replicate 8 [Fin 0, Fin 0])]"
  let ?s4 = "[arr_tall 4 (replicate 8 [Fin 0, Fin 0, Fin 0, Fin 0])]"
  let ?s3 = "[arr3 pts_alt, arr3 pts_alt]"
  have d2: "small_dim (?s2 ! 0) = 2" and d4: "small_dim (?s4 ! 0) = 4"
    by (simp_all add: small_dim_def arr_tall_def)
  have "preserved ?s2 (fst (fundamental_matrix (svd_table []) ?s2 [0, 1] True))
      \<and> preserved ?s2 (?s2 @ [arr3 pts_origin, arr3 pts_origin])"
    using caller_arrays_preserved[of "svd_table []" ?s2 "[0, 1]" True
        "fst (fundamental_matrix (svd_table []) ?s2 [0, 1] True)"
        "fst (snd (fundamental_matrix (svd_table []) ?s2 [0, 1] True))"
        "snd (snd (fundamental_matrix (svd_table []) ?s2 [0, 1] True))"
        0 1 "?s2 @ [arr3 pts_origin, arr3 pts_origin]" "Whole 2" "Whole 3" 8] d2 pip_tall2
    by simp
  moreover have "preserved ?s4 (fst (fundamental_matrix (svd_table []) ?s4 [0] True))
      \<and> preserved ?s4 (?s4 @ [arr3 pts_origin, arr3 pts_origin])"
    using caller_arrays_preserved[of "svd_table []" ?s4 "[0]" True
        "fst (fundamental_matrix (svd_table []) ?s4 [0] True)"
        "fst (snd (fundamental_matrix (svd_table []) ?s4 [0] True))"
        "snd (snd (fundamental_matrix (svd_table []) ?s4 [0] True))"
        0 0 "[]" "Whole 0" "Whole 0" 0 0
        "?s4 @ [arr3 pts_origin, arr3 pts_origin]" "Whole 1" "Whole 2" 8] d4 pip_tall4
    by simp
  moreover have "preserved ?s3 (fst (fundamental_matrix (svd_table []) ?s3 [0, 1] False))"
    using caller_arrays_preserved[of "svd_table []" ?s3 "[0, 1]" False
        "fst (fundamental_matrix (svd_table []) ?s3 [0, 1] False)"
        "fst (snd (fundamental_matrix (svd_table []) ?s3 [0, 1] False))"
        "snd (snd (fundamental_matrix (svd_table []) ?s3 [0, 1] False))"]
    by simp
  ultimately show ?thesis
    by simp
qed

theorem homogeneous_input_overwritten:
  "process_input_pointpairs [arr3 pts_alt, arr3 pts_alt] [0, 1] =
     Inr ([arr3 pts_alt, arr3 pts_alt], Whole 0, Whole 1, 8)
   \<and> fst (fundamental_matrix (svd_table []) [arr3 pts_alt, arr3 pts_alt] [0, 1] True) =
     [arr3 pts_alt_w1, arr3 pts_alt_w1]
   \<and> \<not> preserved [arr3 pts_alt, arr3 pts_alt] [arr3 pts_alt_w1, arr3 pts_alt_w1]"
proof -
  obtain p1 T1 where n1: "normalize2dpts [arr3 pts_alt, arr3 pts_alt] (Whole 0) =
      Inr ([arr3 pts_alt_w1, arr3 pts_alt], p1, T1)"
    using normalize_alt[of "[arr3 pts_alt, arr3 pts_alt]" "Whole 0"]
    by (auto simp: arr3_def)
  obtain p2 T2 where n2: "normalize2dpts [arr3 pts_alt_w1, arr3 pts_alt] (Whole (Suc 0)) =
      Inr ([arr3 pts_alt_w1, arr3 pts_alt_w1], p2, T2)"
    using normalize_alt[of "[arr3 pts_alt_w1, arr3 pts_alt]" "Whole (Suc 0)"]
    by (auto simp: arr3_def)
  have "fst (eight_point_algorithm (svd_table []) [arr3 pts_alt, arr3 pts_alt]
        (Whole 0) (Whole 1) True) = [arr3 pts_alt_w1, arr3 pts_alt_w1]"
    unfolding epa_store_eq by (simp add: n1 n2)
  then have "fst (fundamental_matrix (svd_table []) [arr3 pts_alt, arr3 pts_alt] [0, 1] True) =
     [arr3 pts_alt_w1, arr3 pts_alt_w1]"
    using fm_fst[OF pip_alt] by simp
  moreover have "\<not> preserved [arr3 pts_alt, arr3 pts_alt] [arr3 pts_alt_w1, arr3 pts_alt_w1]"
    by (simp add: preserved_def arr3_def pts_alt_def pts_alt_w1_def)
  ultimately show ?thesis
    using pip_alt by simp
qed

section \<open>The solver\<close>



lemma dot33:
  "dot [[Fin a, Fin b, Fin c], [Fin d, Fin e, Fin f], [Fin g, Fin h, Fin i]]
       [[Fin a', Fin b', Fin c'], [Fin d', Fin e', Fin f'], [Fin g', Fin h', Fin i']]
   = [[Fin (a * a' + b * d' + c * g'), Fin (a * b' + b * e' + c * h'), Fin (a * c' + b * f' + c * i')],
      [Fin (d * a' + e * d' + f * g'), Fin (d * b' + e * e' + f * h'), Fin (d * c' + e * f' + f * i')],
      [Fin (g * a' + h * d' + i * g'), Fin (g * b' + h * e' + i * h'), Fin (g * c' + h * f' + i * i')]]"
  by (simp add: dot_def algebra_simps)


lemma column_last_row:
  assumes "length Vh = 9" "\<forall>r \<in> set Vh. length r = 9"
  shows "column 8 (transpose Vh) = Inr (Vh ! 8)"
proof -
  have ne: "Vh \<noteq> []" using assms(1) by auto
  have l: "length (transpose Vh) = 9"
    using transpose_rect(1)[OF assms(2) ne] .
  have row: "\<And>i. i < 9 \<Longrightarrow> transpose Vh ! i = map (\<lambda>r. r ! i) Vh"
    using transpose_rect(2)[OF assms(2) ne] .
  have all: "list_all (\<lambda>r. 8 < length r) (transpose Vh)"
    unfolding list_all_length using l row assms(1) by simp
  have "map (\<lambda>r. r ! 8) (transpose Vh) = Vh ! 8"
  proof (rule nth_equalityI)
    show "length (map (\<lambda>r. r ! 8) (transpose Vh)) = length (Vh ! 8)"
      using l assms by simp
    fix i assume "i < length (map (\<lambda>r. r ! 8) (transpose Vh))"
    then have i: "i < 9" using l by simp
    then show "map (\<lambda>r. r ! 8) (transpose Vh) ! i = Vh ! 8 ! i"
      using l row[OF i] assms(1) by simp
  qed
  then show ?thesis
    using all by (simp add: column_def)
qed

lemma reshape33_nth:
  assumes "length v = 9"
  shows "reshape33 v = Inr [[v ! 0, v ! 1, v ! 2], [v ! 3, v ! 4, v ! 5], [v ! 6, v ! 7, v ! 8]]"
proof -
  obtain a b c d e f g h i where "v = [a, b, c, d, e, f, g, h, i]"
    using assms by (auto simp: length_Suc_conv eval_nat_numeral)
  then show ?thesis
    by (simp add: reshape33_def)
qed

lemma epa_direct:
  assumes A: "constraint_matrix (dtype (s ! base x1)) (view_get s x1)
      (dtype (s ! base x2)) (view_get s x2) = Inr A"
    and svdA: "svd A = Inr (UA, SA, VhA)"
    and shape: "length VhA = 9" "\<forall>r \<in> set VhA. length r = 9"
    and svdF: "svd [[VhA ! 8 ! 0, VhA ! 8 ! 1, VhA ! 8 ! 2],
                    [VhA ! 8 ! 3, VhA ! 8 ! 4, VhA ! 8 ! 5],
                    [VhA ! 8 ! 6, VhA ! 8 ! 7, VhA ! 8 ! 8]] = Inr (U, d1 # d2 # ds, Vh)"
    and U: "length U = 3" "\<forall>r \<in> set U. length r = 3"
    and Vh: "length Vh = 3"
  shows "eight_point_algorithm svd s x1 x2 False =
     (s, Inr (dot (dot U [[d1, Fin 0, Fin 0], [Fin 0, d2, Fin 0], [Fin 0, Fin 0, Fin 0]]) Vh))"
proof -
  have l8: "length (VhA ! 8) = 9" using shape by simp
  have c: "column 8 (transpose VhA) = Inr (VhA ! 8)"
    by (rule column_last_row[OF shape])
  have d1: "np_dot U [[d1, Fin 0, Fin 0], [Fin 0, d2, Fin 0], [Fin 0, Fin 0, Fin 0]] =
      Inr (dot U [[d1, Fin 0, Fin 0], [Fin 0, d2, Fin 0], [Fin 0, Fin 0, Fin 0]])"
    using U by (simp add: np_dot_def list_all_iff)
  have "\<forall>r \<in> set (dot U [[d1, Fin 0, Fin 0], [Fin 0, d2, Fin 0], [Fin 0, Fin 0, Fin 0]]). length r = 3"
    by (simp add: dot_def)
  then have d2: "np_dot (dot U [[d1, Fin 0, Fin 0], [Fin 0, d2, Fin 0], [Fin 0, Fin 0, Fin 0]]) Vh
     = Inr (dot (dot U [[d1, Fin 0, Fin 0], [Fin 0, d2, Fin 0], [Fin 0, Fin 0, Fin 0]]) Vh)"
    using Vh by (simp add: np_dot_def list_all_iff)
  show ?thesis
    unfolding eight_point_algorithm_def using svdF
    by (simp add: A svdA c reshape33_nth[OF l8] diag2_def d1 d2 ebind_def)
qed

lemma rows3_dot: "\<forall>r \<in> set (dot M [[a, b, c], [d, e, f], [g, h, i]]). length r = 3"
  by (simp add: dot_def)

lemma dot_row_len:
  assumes "B \<noteq> []" "\<forall>r \<in> set B. length r = n"
  shows "\<forall>r \<in> set (dot M B). length r = n"
  using transpose_rect(1)[OF assms(2,1)] by (simp add: dot_def)

lemma np_dot_ok:
  assumes "\<forall>r \<in> set M. length r = length B"
  shows "np_dot M B = Inr (dot M B)"
  using assms by (simp add: np_dot_def list_all_iff)

lemma epa_normalised:
  assumes n1: "normalize2dpts s x1 = Inr (s1, p1, T1)"
    and n2: "normalize2dpts s1 x2 = Inr (s2, p2, T2)"
    and A: "constraint_matrix Floating p1 Floating p2 = Inr A"
    and svdA: "svd A = Inr (UA, SA, VhA)"
    and shape: "length VhA = 9" "\<forall>r \<in> set VhA. length r = 9"
    and svdF: "svd [[VhA ! 8 ! 0, VhA ! 8 ! 1, VhA ! 8 ! 2],
                    [VhA ! 8 ! 3, VhA ! 8 ! 4, VhA ! 8 ! 5],
                    [VhA ! 8 ! 6, VhA ! 8 ! 7, VhA ! 8 ! 8]] = Inr (U, d1 # d2 # ds, Vh)"
    and U: "length U = 3" "\<forall>r \<in> set U. length r = 3"
    and Vh: "length Vh = 3" "\<forall>r \<in> set Vh. length r = 3"
    and T1: "length T1 = 3"
    and T2: "length T2 = 3" "\<forall>r \<in> set T2. length r = 3"
  shows "eight_point_algorithm svd s x1 x2 True =
     (s2, Inr (dot (dot (transpose T2)
        (dot (dot U [[d1, Fin 0, Fin 0], [Fin 0, d2, Fin 0], [Fin 0, Fin 0, Fin 0]]) Vh)) T1))"
proof -
  let ?Dm = "[[d1, Fin 0, Fin 0], [Fin 0, d2, Fin 0], [Fin 0, Fin 0, Fin 0]]"
  let ?F = "dot (dot U ?Dm) Vh"
  have l8: "length (VhA ! 8) = 9" using shape by simp
  have c: "column 8 (transpose VhA) = Inr (VhA ! 8)"
    by (rule column_last_row[OF shape])
  have d1: "np_dot U ?Dm = Inr (dot U ?Dm)"
    using U by (simp add: np_dot_ok)
  have d2: "np_dot (dot U ?Dm) Vh = Inr ?F"
    using Vh(1) rows3_dot[of U] by (simp add: np_dot_ok)
  have lF: "length ?F = 3"
    using U(1) by (simp add: dot_def)
  have neVh: "Vh \<noteq> []" using Vh(1) by auto
  have rF: "\<forall>r \<in> set ?F. length r = 3"
    by (rule dot_row_len[OF neVh Vh(2)])
  have neT2: "T2 \<noteq> []" using T2(1) by auto
  have "\<forall>r \<in> set (transpose T2). length r = 3"
    using transpose_rect[OF T2(2) neT2] T2(1) by (auto simp: in_set_conv_nth)
  then have d3: "np_dot (transpose T2) ?F = Inr (dot (transpose T2) ?F)"
    using lF by (simp add: np_dot_ok)
  have neF: "?F \<noteq> []" using lF by auto
  have "\<forall>r \<in> set (dot (transpose T2) ?F). length r = 3"
    by (rule dot_row_len[OF neF rF])
  then have d4: "np_dot (dot (transpose T2) ?F) T1 = Inr (dot (dot (transpose T2) ?F) T1)"
    using T1 by (simp add: np_dot_ok)
  show ?thesis
    unfolding eight_point_algorithm_def using svdF
    by (simp add: n1 n2 A svdA c reshape33_nth[OF l8] diag2_def d1 d2 d3 d4 ebind_def)
qed

lemma sqrt_bounds: "576 < sqrt 331777" "sqrt 51361 < 227"
proof -
  show "576 < sqrt 331777"
    by (rule real_less_rsqrt) simp
  show "sqrt 51361 < 227"
    by (rule real_less_lsqrt) simp_all
qed

lemma sqrt_bounds2: "144 < sqrt 20737" "sqrt 20737 < 145"
proof -
  show "144 < sqrt 20737"
    by (rule real_less_rsqrt) simp
  show "sqrt 20737 < 145"
    by (rule real_less_lsqrt) simp_all
qed

lemma F0_distinct: "F0_direct \<noteq> F0_normalised"
proof -
  have "1 / sqrt 331777 < 1 / 576"
    using sqrt_bounds(1) by (simp add: field_simps)
  moreover have "175 / 227 < 175 / sqrt 51361"
    using sqrt_bounds(2) by (simp add: field_simps)
  ultimately have "1 / sqrt 331777 \<noteq> 175 / sqrt 51361"
    by linarith
  then show ?thesis
    by (simp add: F0_direct_def F0_normalised_def)
qed

lemma F0_pixel_distinct: "F0_pixel \<noteq> F0_normalised" "F0_pixel \<noteq> F0_direct"
proof -
  have a: "1 / sqrt 20737 < 1 / 144"
    using sqrt_bounds2(1) by (simp add: field_simps)
  have a': "1 / 145 < 1 / sqrt 20737"
    using sqrt_bounds2(2) by (simp add: field_simps)
  have b: "175 / 227 < 175 / sqrt 51361"
    using sqrt_bounds(2) by (simp add: field_simps)
  have c: "1 / sqrt 331777 < 1 / 576"
    using sqrt_bounds(1) by (simp add: field_simps)
  have "1 / sqrt 20737 \<noteq> 175 / sqrt 51361"
    using a b by linarith
  then show "F0_pixel \<noteq> F0_normalised"
    by (simp add: F0_pixel_def F0_normalised_def)
  have "1 / sqrt 20737 \<noteq> 1 / sqrt 331777"
    using a' c by linarith
  then show "F0_pixel \<noteq> F0_direct"
    by (simp add: F0_pixel_def F0_direct_def)
qed

lemma A_distinct: "A_direct \<noteq> A_normalised"
  by (simp add: A_direct_def A_normalised_def)

lemma A_F0_distinct:
  "F0_direct \<noteq> A_direct" "F0_direct \<noteq> A_normalised"
  "F0_normalised \<noteq> A_direct" "F0_normalised \<noteq> A_normalised"
  by (simp_all add: A_direct_def A_normalised_def F0_direct_def F0_normalised_def)

lemma A_pixel_distinct:
  "A_pixel \<noteq> A_normalised" "A_pixel \<noteq> A_direct"
  "F0_pixel \<noteq> A_pixel" "F0_pixel \<noteq> A_direct" "F0_pixel \<noteq> A_normalised"
  "F0_direct \<noteq> A_pixel" "F0_normalised \<noteq> A_pixel"
  by (simp_all add: A_pixel_def A_direct_def A_normalised_def F0_pixel_def F0_direct_def
      F0_normalised_def)

lemma svd_example_lookup:
  "svd_example A_direct = Inr ([], [],
         last_row [Fin 0, Fin (1 / sqrt 331777), Fin 0, Fin 0, Fin 0, Fin 0, Fin 0, Fin 0,
                   Fin (- (576 / sqrt 331777))])"
  "svd_example A_normalised = Inr ([], [],
         last_row [Fin 0, Fin (175 / sqrt 51361), Fin 0, Fin 0, Fin 0, Fin 0, Fin 0, Fin 0,
                   Fin (- (144 / sqrt 51361))])"
  "svd_example F0_direct = Inr (map (map Fin) [[0, 1, 0], [0, 0, 1], [- 1, 0, 0]],
          [Fin (576 / sqrt 331777), Fin (1 / sqrt 331777), Fin 0],
          map (map Fin) [[0, 0, 1], [0, 1, 0], [1, 0, 0]])"
  "svd_example F0_normalised = Inr (map (map Fin) [[1, 0, 0], [0, 0, 1], [0, - 1, 0]],
          [Fin (175 / sqrt 51361), Fin (144 / sqrt 51361), Fin 0],
          map (map Fin) [[0, 1, 0], [0, 0, 1], [1, 0, 0]])"
  "svd_example A_pixel = Inr ([], [],
         last_row [Fin 0, Fin (1 / sqrt 20737), Fin 0, Fin 0, Fin 0, Fin 0, Fin 0, Fin 0,
                   Fin (- (144 / sqrt 20737))])"
  "svd_example F0_pixel = Inr (map (map Fin) [[0, 1, 0], [0, 0, 1], [- 1, 0, 0]],
          [Fin (144 / sqrt 20737), Fin (1 / sqrt 20737), Fin 0],
          map (map Fin) [[0, 0, 1], [0, 1, 0], [1, 0, 0]])"
  using A_distinct F0_distinct A_F0_distinct A_pixel_distinct F0_pixel_distinct
  by (simp_all add: svd_example_def svd_table_def)

lemma last_row_shape: "length v = 9 \<Longrightarrow> length (last_row v) = 9 \<and> (\<forall>r \<in> set (last_row v). length r = 9)"
  by (auto simp: last_row_def)

lemma last_row_nth: "last_row v ! 8 = v"
  by (simp add: last_row_def nth_append)

lemma last_row_F0:
  "[[last_row [a, b, c, d, e, f, g, h, i] ! 8 ! 0, last_row [a, b, c, d, e, f, g, h, i] ! 8 ! 1,
     last_row [a, b, c, d, e, f, g, h, i] ! 8 ! 2],
    [last_row [a, b, c, d, e, f, g, h, i] ! 8 ! 3, last_row [a, b, c, d, e, f, g, h, i] ! 8 ! 4,
     last_row [a, b, c, d, e, f, g, h, i] ! 8 ! 5],
    [last_row [a, b, c, d, e, f, g, h, i] ! 8 ! 6, last_row [a, b, c, d, e, f, g, h, i] ! 8 ! 7,
     last_row [a, b, c, d, e, f, g, h, i] ! 8 ! 8]] = [[a, b, c], [d, e, f], [g, h, i]]"
  by (simp add: last_row_nth)

lemma cm_direct: "constraint_matrix Floating pts_left_h Floating pts_right_h = Inr A_direct"
  by (simp add: constraint_matrix_def pts_left_h_def pts_right_h_def A_direct_def vmul_def
      np_mul_def eval_nat_numeral)



















section \<open>The round trip\<close>

lemma sqrts: "sqrt 25 = 5" "sqrt 6400 = 80" "sqrt 3600 = 60"
proof -
  have "sqrt (5\<^sup>2) = 5" "sqrt (80\<^sup>2) = 80" "sqrt (60\<^sup>2) = 60" by simp_all
  then show "sqrt 25 = 5" "sqrt 6400 = 80" "sqrt 3600 = 60" by simp_all
qed

lemma left_vals:
  "dehom [8, - 8, 8, - 8, 6, - 6, 6, - 6] (replicate 8 2) = [4, - 4, 4, - 4, 3, - 3, 3, - 3]"
  "dehom [6, 6, - 6, - 6, 8, 8, - 8, - 8] (replicate 8 2) = [3, 3, - 3, - 3, 4, 4, - 4, - 4]"
  "mean [4, - 4, 4, - 4, 3, - 3, 3, - 3] = 0"
  "mean [3, 3, - 3, - 3, 4, 4, - 4, - 4] = 0"
  "mean_distance [4, - 4, 4, - 4, 3, - 3, 3, - 3] [3, 3, - 3, - 3, 4, 4, - 4, - 4] = 5"
  by (simp_all add: dehom_def mean_def mean_distance_def eval_nat_numeral sqrts)

lemma right_vals:
  "dehom [96, 96, - 96, - 96, 72, 72, - 72, - 72] (replicate 8 2) = [48, 48, - 48, - 48, 36, 36, - 36, - 36]"
  "dehom [128, - 128, 128, - 128, 96, - 96, - 96, 96] (replicate 8 2) = [64, - 64, 64, - 64, 48, - 48, - 48, 48]"
  "mean [48, 48, - 48, - 48, 36, 36, - 36, - 36] = 0"
  "mean [64, - 64, 64, - 64, 48, - 48, - 48, 48] = 0"
  "mean_distance [48, 48, - 48, - 48, 36, 36, - 36, - 36] [64, - 64, 64, - 64, 48, - 48, - 48, 48] = 70"
  by (simp_all add: dehom_def mean_def mean_distance_def eval_nat_numeral sqrts)

lemma pix_vals:
  "dehom [4, - 4, 4, - 4, 3, - 3, 3, - 3] (replicate 8 1) = [4, - 4, 4, - 4, 3, - 3, 3, - 3]"
  "dehom [3, 3, - 3, - 3, 4, 4, - 4, - 4] (replicate 8 1) = [3, 3, - 3, - 3, 4, 4, - 4, - 4]"
  "dehom [48, 48, - 48, - 48, 36, 36, - 36, - 36] (replicate 8 1) =
     [48, 48, - 48, - 48, 36, 36, - 36, - 36]"
  "dehom [64, - 64, 64, - 64, 48, - 48, - 48, 48] (replicate 8 1) =
     [64, - 64, 64, - 64, 48, - 48, - 48, 48]"
  by (simp_all add: dehom_def eval_nat_numeral)

lemma norm_left:
  assumes "view_get s v = pts_left_h" "dtype (s ! base v) = Floating"
  shows "normalize2dpts s v = Inr (view_put s v pts_left_pix, pts_left_n,
      [[Fin (sqrt 2 / 5), Fin 0, Fin 0], [Fin 0, Fin (sqrt 2 / 5), Fin 0], [Fin 0, Fin 0, Fin 1]])"
proof -
  have vg: "view_get s v =
      [map Fin [8, - 8, 8, - 8, 6, - 6, 6, - 6], map Fin [6, 6, - 6, - 6, 8, 8, - 8, - 8],
             map Fin (replicate 8 2)]"
    using assms by (simp add: pts_left_h_def)
  have len: "length [8, - 8, 8, - 8, 6, - 6, 6, - 6 :: real] = 8"
    "length [6, 6, - 6, - 6, 8, 8, - 8, - 8 :: real] = 8" "length (replicate 8 (2::real)) = 8"
    by simp_all
  have fin: "\<forall>w \<in> set (replicate 8 (2::real)). 1 / 2 ^ 52 < \<bar>w\<bar>"
    by simp
  have nz: "mean_distance (dehom [8, - 8, 8, - 8, 6, - 6, 6, - 6] (replicate 8 2))
      (dehom [6, 6, - 6, - 6, 8, 8, - 8, - 8] (replicate 8 2)) \<noteq> 0"
    by (simp add: left_vals)
  show ?thesis
    using normalize2dpts_finite[OF vg len fin nz assms(2), unfolded left_vals]
    by (simp add: pts_left_pix_def pts_left_n_def)
qed

lemma norm_right:
  assumes "view_get s v = pts_right_h" "dtype (s ! base v) = Floating"
  shows "normalize2dpts s v = Inr (view_put s v pts_right_pix, pts_right_n,
      [[Fin (sqrt 2 / 70), Fin 0, Fin 0], [Fin 0, Fin (sqrt 2 / 70), Fin 0], [Fin 0, Fin 0, Fin 1]])"
proof -
  have vg: "view_get s v =
      [map Fin [96, 96, - 96, - 96, 72, 72, - 72, - 72],
       map Fin [128, - 128, 128, - 128, 96, - 96, - 96, 96], map Fin (replicate 8 2)]"
    using assms by (simp add: pts_right_h_def)
  have len: "length [96, 96, - 96, - 96, 72, 72, - 72, - 72 :: real] = 8"
    "length [128, - 128, 128, - 128, 96, - 96, - 96, 96 :: real] = 8" "length (replicate 8 (2::real)) = 8"
    by simp_all
  have fin: "\<forall>w \<in> set (replicate 8 (2::real)). 1 / 2 ^ 52 < \<bar>w\<bar>"
    by simp
  have nz: "mean_distance (dehom [96, 96, - 96, - 96, 72, 72, - 72, - 72] (replicate 8 2))
      (dehom [128, - 128, 128, - 128, 96, - 96, - 96, 96] (replicate 8 2)) \<noteq> 0"
    by (simp add: right_vals)
  show ?thesis
    using normalize2dpts_finite[OF vg len fin nz assms(2), unfolded right_vals]
    by (simp add: pts_right_pix_def pts_right_n_def)
qed

lemma norm_left_pix:
  assumes "view_get s v = pts_left_pix" "dtype (s ! base v) = Floating"
  shows "normalize2dpts s v = Inr (view_put s v pts_left_pix, pts_left_n,
      [[Fin (sqrt 2 / 5), Fin 0, Fin 0], [Fin 0, Fin (sqrt 2 / 5), Fin 0], [Fin 0, Fin 0, Fin 1]])"
proof -
  have vg: "view_get s v =
      [map Fin [4, - 4, 4, - 4, 3, - 3, 3, - 3], map Fin [3, 3, - 3, - 3, 4, 4, - 4, - 4],
       map Fin (replicate 8 1)]"
    using assms by (simp add: pts_left_pix_def)
  have len: "length [4, - 4, 4, - 4, 3, - 3, 3, - 3 :: real] = 8"
    "length [3, 3, - 3, - 3, 4, 4, - 4, - 4 :: real] = 8" "length (replicate 8 (1::real)) = 8"
    by simp_all
  have fin: "\<forall>w \<in> set (replicate 8 (1::real)). 1 / 2 ^ 52 < \<bar>w\<bar>"
    by simp
  have nz: "mean_distance (dehom [4, - 4, 4, - 4, 3, - 3, 3, - 3] (replicate 8 1))
      (dehom [3, 3, - 3, - 3, 4, 4, - 4, - 4] (replicate 8 1)) \<noteq> 0"
    by (simp add: pix_vals left_vals)
  show ?thesis
    using normalize2dpts_finite[OF vg len fin nz assms(2), unfolded pix_vals left_vals]
    by (simp add: pts_left_pix_def pts_left_n_def)
qed

lemma norm_right_pix:
  assumes "view_get s v = pts_right_pix" "dtype (s ! base v) = Floating"
  shows "normalize2dpts s v = Inr (view_put s v pts_right_pix, pts_right_n,
      [[Fin (sqrt 2 / 70), Fin 0, Fin 0], [Fin 0, Fin (sqrt 2 / 70), Fin 0], [Fin 0, Fin 0, Fin 1]])"
proof -
  have vg: "view_get s v =
      [map Fin [48, 48, - 48, - 48, 36, 36, - 36, - 36],
       map Fin [64, - 64, 64, - 64, 48, - 48, - 48, 48], map Fin (replicate 8 1)]"
    using assms by (simp add: pts_right_pix_def)
  have len: "length [48, 48, - 48, - 48, 36, 36, - 36, - 36 :: real] = 8"
    "length [64, - 64, 64, - 64, 48, - 48, - 48, 48 :: real] = 8" "length (replicate 8 (1::real)) = 8"
    by simp_all
  have fin: "\<forall>w \<in> set (replicate 8 (1::real)). 1 / 2 ^ 52 < \<bar>w\<bar>"
    by simp
  have nz: "mean_distance (dehom [48, 48, - 48, - 48, 36, 36, - 36, - 36] (replicate 8 1))
      (dehom [64, - 64, 64, - 64, 48, - 48, - 48, 48] (replicate 8 1)) \<noteq> 0"
    by (simp add: pix_vals right_vals)
  show ?thesis
    using normalize2dpts_finite[OF vg len fin nz assms(2), unfolded pix_vals right_vals]
    by (simp add: pts_right_pix_def pts_right_n_def)
qed

lemma cm_normalised: "constraint_matrix Floating pts_left_n Floating pts_right_n = Inr A_normalised"
  by (simp add: constraint_matrix_def pts_left_n_def pts_right_n_def A_normalised_def vmul_def
      np_mul_def eval_nat_numeral)

lemma cm_pixel: "constraint_matrix Floating pts_left_pix Floating pts_right_pix = Inr A_pixel"
  by (simp add: constraint_matrix_def pts_left_pix_def pts_right_pix_def A_pixel_def vmul_def
      np_mul_def eval_nat_numeral)

lemma epa_example_direct:
  "eight_point_algorithm svd_example [arr3 pts_left_h, arr3 pts_right_h] (Whole 0) (Whole 1) False
   = ([arr3 pts_left_h, arr3 pts_right_h], Inr F0_direct)"
proof -
  let ?v = "[Fin 0, Fin (1 / sqrt 331777), Fin 0, Fin 0, Fin 0, Fin 0, Fin 0, Fin 0,
                   Fin (- (576 / sqrt 331777))]"
  have cm: "constraint_matrix (dtype ([arr3 pts_left_h, arr3 pts_right_h] ! base (Whole 0)))
        (view_get [arr3 pts_left_h, arr3 pts_right_h] (Whole 0))
        (dtype ([arr3 pts_left_h, arr3 pts_right_h] ! base (Whole 1)))
        (view_get [arr3 pts_left_h, arr3 pts_right_h] (Whole 1)) = Inr A_direct"
    using cm_direct by (simp add: arr3_def)
  have sh: "length (last_row ?v) = 9" "\<forall>r \<in> set (last_row ?v). length r = 9"
    using last_row_shape[of ?v] by simp_all
  have f: "svd_example [[last_row ?v ! 8 ! 0, last_row ?v ! 8 ! 1, last_row ?v ! 8 ! 2],
                    [last_row ?v ! 8 ! 3, last_row ?v ! 8 ! 4, last_row ?v ! 8 ! 5],
                    [last_row ?v ! 8 ! 6, last_row ?v ! 8 ! 7, last_row ?v ! 8 ! 8]] =
         Inr (map (map Fin) [[0, 1, 0], [0, 0, 1], [- 1, 0, 0]],
          [Fin (576 / sqrt 331777), Fin (1 / sqrt 331777), Fin 0],
          map (map Fin) [[0, 0, 1], [0, 1, 0], [1, 0, 0]])"
    unfolding last_row_F0 using svd_example_lookup(3) by (simp only: F0_direct_def)
  have "dot (dot (map (map Fin) [[0, 1, 0], [0, 0, 1], [- 1, 0, 0]])
         [[Fin (576 / sqrt 331777), Fin 0, Fin 0], [Fin 0, Fin (1 / sqrt 331777), Fin 0],
          [Fin 0, Fin 0, Fin 0]]) (map (map Fin) [[0, 0, 1], [0, 1, 0], [1, 0, 0]]) = F0_direct"
    by (simp add: dot33 F0_direct_def)
  then show ?thesis
    using epa_direct[OF cm svd_example_lookup(1) sh f] by simp
qed

lemma epa_example_normalised:
  "eight_point_algorithm svd_example [arr3 pts_left_h, arr3 pts_right_h] (Whole 0) (Whole 1) True
   = ([arr3 pts_left_pix, arr3 pts_right_pix], Inr F_denormalised)"
proof -
  let ?v = "[Fin 0, Fin (175 / sqrt 51361), Fin 0, Fin 0, Fin 0, Fin 0, Fin 0, Fin 0,
                   Fin (- (144 / sqrt 51361))]"
  let ?T1 = "[[Fin (sqrt 2 / 5), Fin 0, Fin 0], [Fin 0, Fin (sqrt 2 / 5), Fin 0], [Fin 0, Fin 0, Fin 1]]"
  let ?T2 = "[[Fin (sqrt 2 / 70), Fin 0, Fin 0], [Fin 0, Fin (sqrt 2 / 70), Fin 0], [Fin 0, Fin 0, Fin 1]]"
  have n1: "normalize2dpts [arr3 pts_left_h, arr3 pts_right_h] (Whole 0) =
      Inr ([arr3 pts_left_pix, arr3 pts_right_h], pts_left_n, ?T1)"
    using norm_left[of "[arr3 pts_left_h, arr3 pts_right_h]" "Whole 0"] by (simp add: arr3_def)
  have n2: "normalize2dpts [arr3 pts_left_pix, arr3 pts_right_h] (Whole 1) =
      Inr ([arr3 pts_left_pix, arr3 pts_right_pix], pts_right_n, ?T2)"
    using norm_right[of "[arr3 pts_left_pix, arr3 pts_right_h]" "Whole 1"] by (simp add: arr3_def)
  have sh: "length (last_row ?v) = 9" "\<forall>r \<in> set (last_row ?v). length r = 9"
    using last_row_shape[of ?v] by simp_all
  have f: "svd_example [[last_row ?v ! 8 ! 0, last_row ?v ! 8 ! 1, last_row ?v ! 8 ! 2],
                    [last_row ?v ! 8 ! 3, last_row ?v ! 8 ! 4, last_row ?v ! 8 ! 5],
                    [last_row ?v ! 8 ! 6, last_row ?v ! 8 ! 7, last_row ?v ! 8 ! 8]] =
         Inr (map (map Fin) [[1, 0, 0], [0, 0, 1], [0, - 1, 0]],
          [Fin (175 / sqrt 51361), Fin (144 / sqrt 51361), Fin 0],
          map (map Fin) [[0, 1, 0], [0, 0, 1], [1, 0, 0]])"
    unfolding last_row_F0 using svd_example_lookup(4) by (simp only: F0_normalised_def)
  have "dot (dot (transpose ?T2) (dot (dot (map (map Fin) [[1, 0, 0], [0, 0, 1], [0, - 1, 0]])
         [[Fin (175 / sqrt 51361), Fin 0, Fin 0], [Fin 0, Fin (144 / sqrt 51361), Fin 0],
          [Fin 0, Fin 0, Fin 0]]) (map (map Fin) [[0, 1, 0], [0, 0, 1], [1, 0, 0]]))) ?T1
       = F_denormalised"
    by (simp add: dot33 F_denormalised_def)
  then show ?thesis
    using epa_normalised[OF n1 n2 cm_normalised svd_example_lookup(2) sh f] by simp
qed

lemma epa_example_pixel_direct:
  "eight_point_algorithm svd_example [arr3 pts_left_pix, arr3 pts_right_pix] (Whole 0) (Whole 1) False
   = ([arr3 pts_left_pix, arr3 pts_right_pix], Inr F0_pixel)"
proof -
  let ?v = "[Fin 0, Fin (1 / sqrt 20737), Fin 0, Fin 0, Fin 0, Fin 0, Fin 0, Fin 0,
                   Fin (- (144 / sqrt 20737))]"
  have cm: "constraint_matrix (dtype ([arr3 pts_left_pix, arr3 pts_right_pix] ! base (Whole 0)))
        (view_get [arr3 pts_left_pix, arr3 pts_right_pix] (Whole 0))
        (dtype ([arr3 pts_left_pix, arr3 pts_right_pix] ! base (Whole 1)))
        (view_get [arr3 pts_left_pix, arr3 pts_right_pix] (Whole 1)) = Inr A_pixel"
    using cm_pixel by (simp add: arr3_def)
  have sh: "length (last_row ?v) = 9" "\<forall>r \<in> set (last_row ?v). length r = 9"
    using last_row_shape[of ?v] by simp_all
  have f: "svd_example [[last_row ?v ! 8 ! 0, last_row ?v ! 8 ! 1, last_row ?v ! 8 ! 2],
                    [last_row ?v ! 8 ! 3, last_row ?v ! 8 ! 4, last_row ?v ! 8 ! 5],
                    [last_row ?v ! 8 ! 6, last_row ?v ! 8 ! 7, last_row ?v ! 8 ! 8]] =
         Inr (map (map Fin) [[0, 1, 0], [0, 0, 1], [- 1, 0, 0]],
          [Fin (144 / sqrt 20737), Fin (1 / sqrt 20737), Fin 0],
          map (map Fin) [[0, 0, 1], [0, 1, 0], [1, 0, 0]])"
    unfolding last_row_F0 using svd_example_lookup(6) by (simp only: F0_pixel_def)
  have "dot (dot (map (map Fin) [[0, 1, 0], [0, 0, 1], [- 1, 0, 0]])
         [[Fin (144 / sqrt 20737), Fin 0, Fin 0], [Fin 0, Fin (1 / sqrt 20737), Fin 0],
          [Fin 0, Fin 0, Fin 0]]) (map (map Fin) [[0, 0, 1], [0, 1, 0], [1, 0, 0]]) = F0_pixel"
    by (simp add: dot33 F0_pixel_def)
  then show ?thesis
    using epa_direct[OF cm svd_example_lookup(5) sh f] by simp
qed

lemma epa_example_pixel_normalised:
  "eight_point_algorithm svd_example [arr3 pts_left_pix, arr3 pts_right_pix] (Whole 0) (Whole 1) True
   = ([arr3 pts_left_pix, arr3 pts_right_pix], Inr F_denormalised)"
proof -
  let ?v = "[Fin 0, Fin (175 / sqrt 51361), Fin 0, Fin 0, Fin 0, Fin 0, Fin 0, Fin 0,
                   Fin (- (144 / sqrt 51361))]"
  let ?T1 = "[[Fin (sqrt 2 / 5), Fin 0, Fin 0], [Fin 0, Fin (sqrt 2 / 5), Fin 0], [Fin 0, Fin 0, Fin 1]]"
  let ?T2 = "[[Fin (sqrt 2 / 70), Fin 0, Fin 0], [Fin 0, Fin (sqrt 2 / 70), Fin 0], [Fin 0, Fin 0, Fin 1]]"
  have n1: "normalize2dpts [arr3 pts_left_pix, arr3 pts_right_pix] (Whole 0) =
      Inr ([arr3 pts_left_pix, arr3 pts_right_pix], pts_left_n, ?T1)"
    using norm_left_pix[of "[arr3 pts_left_pix, arr3 pts_right_pix]" "Whole 0"]
    by (simp add: arr3_def)
  have n2: "normalize2dpts [arr3 pts_left_pix, arr3 pts_right_pix] (Whole 1) =
      Inr ([arr3 pts_left_pix, arr3 pts_right_pix], pts_right_n, ?T2)"
    using norm_right_pix[of "[arr3 pts_left_pix, arr3 pts_right_pix]" "Whole 1"]
    by (simp add: arr3_def)
  have sh: "length (last_row ?v) = 9" "\<forall>r \<in> set (last_row ?v). length r = 9"
    using last_row_shape[of ?v] by simp_all
  have f: "svd_example [[last_row ?v ! 8 ! 0, last_row ?v ! 8 ! 1, last_row ?v ! 8 ! 2],
                    [last_row ?v ! 8 ! 3, last_row ?v ! 8 ! 4, last_row ?v ! 8 ! 5],
                    [last_row ?v ! 8 ! 6, last_row ?v ! 8 ! 7, last_row ?v ! 8 ! 8]] =
         Inr (map (map Fin) [[1, 0, 0], [0, 0, 1], [0, - 1, 0]],
          [Fin (175 / sqrt 51361), Fin (144 / sqrt 51361), Fin 0],
          map (map Fin) [[0, 1, 0], [0, 0, 1], [1, 0, 0]])"
    unfolding last_row_F0 using svd_example_lookup(4) by (simp only: F0_normalised_def)
  have "dot (dot (transpose ?T2) (dot (dot (map (map Fin) [[1, 0, 0], [0, 0, 1], [0, - 1, 0]])
         [[Fin (175 / sqrt 51361), Fin 0, Fin 0], [Fin 0, Fin (144 / sqrt 51361), Fin 0],
          [Fin 0, Fin 0, Fin 0]]) (map (map Fin) [[0, 1, 0], [0, 0, 1], [1, 0, 0]]))) ?T1
       = F_denormalised"
    by (simp add: dot33 F_denormalised_def)
  then show ?thesis
    using epa_normalised[OF n1 n2 cm_normalised svd_example_lookup(2) sh f] by simp
qed

lemma pip_example:
  "process_input_pointpairs [arr3 pts_left_h, arr3 pts_right_h] [0, 1] =
     Inr ([arr3 pts_left_h, arr3 pts_right_h], Whole 0, Whole 1, 8)"
  by (simp add: process_input_pointpairs_def arr3_def Let_def)

lemma pip_example_pix:
  "process_input_pointpairs [arr3 pts_left_pix, arr3 pts_right_pix] [0, 1] =
     Inr ([arr3 pts_left_pix, arr3 pts_right_pix], Whole 0, Whole 1, 8)"
  by (simp add: process_input_pointpairs_def arr3_def Let_def)

lemma not_multiple: "\<not> scalar_multiple F_denormalised F0_direct"
proof
  assume "scalar_multiple F_denormalised F0_direct"
  then obtain c where "F_denormalised = map (map (fmul (Fin c))) F0_direct"
    unfolding scalar_multiple_def by blast
  then have e: "1 / sqrt 51361 = c / sqrt 331777" "144 / sqrt 51361 = c * 576 / sqrt 331777"
    by (simp_all add: F_denormalised_def F0_direct_def)
  have "144 / sqrt 51361 = 576 * (c / sqrt 331777)"
    using e(2) by simp
  also have "\<dots> = 576 * (1 / sqrt 51361)"
    using e(1) by simp
  finally have "144 / sqrt 51361 = 576 / sqrt 51361"
    by simp
  then show False
    by simp
qed

lemma multiple_pixel: "scalar_multiple F_denormalised F0_pixel"
proof -
  have "sqrt 20737 / sqrt 51361 \<noteq> 0"
    by simp
  moreover have "F_denormalised = map (map (fmul (Fin (sqrt 20737 / sqrt 51361)))) F0_pixel"
    by (simp add: F_denormalised_def F0_pixel_def)
  ultimately show ?thesis
    unfolding scalar_multiple_def by blast
qed

lemma res_normalised: "residuals F_denormalised pts_left_h pts_right_h = replicate 8 (Fin 0)"
  by (simp add: residuals_def F_denormalised_def pts_left_h_def pts_right_h_def eval_nat_numeral)

lemma res_direct: "residuals F0_direct pts_left_h pts_right_h =
    replicate 8 (Fin (- (1728 / sqrt 331777)))"
  by (simp add: residuals_def F0_direct_def pts_left_h_def pts_right_h_def eval_nat_numeral)

text \<open>
  C9, on eight exact correspondences. Given as pixels with third coordinate 1, the
  estimate with normalisation, mapped back, and the estimate without are the same
  fundamental matrix up to scale. Given in homogeneous coordinates with third coordinate
  2, the estimate with normalisation is unchanged, since \<open>normalize2dpts\<close> de-homogenises
  first, and all its residuals are 0; the estimate without normalisation is built from the
  first two coordinates as stored: it is not a multiple of the other and its residuals are
  not 0.
\<close>

theorem round_trip_homogeneous_input:
  "fundamental_matrix svd_example [arr3 pts_left_pix, arr3 pts_right_pix] [0, 1] False =
     ([arr3 pts_left_pix, arr3 pts_right_pix], [], Inr (Some F0_pixel))
   \<and> fundamental_matrix svd_example [arr3 pts_left_pix, arr3 pts_right_pix] [0, 1] True =
     ([arr3 pts_left_pix, arr3 pts_right_pix], [], Inr (Some F_denormalised))
   \<and> scalar_multiple F_denormalised F0_pixel
   \<and> fundamental_matrix svd_example [arr3 pts_left_h, arr3 pts_right_h] [0, 1] False =
     ([arr3 pts_left_h, arr3 pts_right_h], [], Inr (Some F0_direct))
   \<and> fundamental_matrix svd_example [arr3 pts_left_h, arr3 pts_right_h] [0, 1] True =
     ([arr3 pts_left_pix, arr3 pts_right_pix], [], Inr (Some F_denormalised))
   \<and> \<not> scalar_multiple F_denormalised F0_direct
   \<and> residuals F_denormalised pts_left_h pts_right_h = replicate 8 (Fin 0)
   \<and> residuals F0_direct pts_left_h pts_right_h = replicate 8 (Fin (- (1728 / sqrt 331777)))"
  using epa_example_direct epa_example_normalised epa_example_pixel_direct
    epa_example_pixel_normalised not_multiple multiple_pixel res_normalised res_direct
    pip_example pip_example_pix
  by (simp add: fundamental_matrix_def)

end
